theory Spec2Isabelle
  imports Complex_Main
begin

section \<open>Pixels, pictures and the 2D canvas\<close>

text \<open>
  The person matte (\<^verbatim>\<open>personMatte.js\<close> and its sibling revision \<^verbatim>\<open>part_000\<close>) is written
  against the browser's 2D canvas. A pixel is premultiplied RGBA with channels in the
  unit interval, taken as exact reals (the 8-bit quantisation of a real canvas is left
  out). A bitmap maps pixel coordinates to pixels; a picture is a bitmap with its natural
  size: a video frame, a segmentation mask or the snapshot of a canvas.
\<close>

record rgba =
  red :: real
  green :: real
  blue :: real
  alpha :: real

definition transparent :: rgba where
  "transparent = \<lparr>red = 0, green = 0, blue = 0, alpha = 0\<rparr>"

definition scale_px :: "real \<Rightarrow> rgba \<Rightarrow> rgba" where
  "scale_px k p = \<lparr>red = k * red p, green = k * green p, blue = k * blue p, alpha = k * alpha p\<rparr>"

definition add_px :: "rgba \<Rightarrow> rgba \<Rightarrow> rgba" where
  "add_px p q = \<lparr>red = red p + red q, green = green p + green q,
                 blue = blue p + blue q, alpha = alpha p + alpha q\<rparr>"

type_synonym bitmap = "nat \<times> nat \<Rightarrow> rgba"

record picture =
  pwidth :: nat
  pheight :: nat
  pixels :: bitmap

datatype composite_op = SourceOver | Copy | SourceIn | DestinationIn

datatype filter_value = NoFilter | Blur real

text \<open>
  A canvas element with the part of its 2D context state that the matte touches:
  \<^verbatim>\<open>globalCompositeOperation\<close>, \<^verbatim>\<open>globalAlpha\<close> and \<^verbatim>\<open>filter\<close>.
\<close>

record canvas_el =
  width :: nat
  height :: nat
  bitmap :: bitmap
  globalCompositeOperation :: composite_op
  globalAlpha :: real
  filter_c :: filter_value

text \<open>
  What the browser supplies and the repository does not define: the weights of the
  \<^verbatim>\<open>blur(r px)\<close> filter (\<open>kernel b r dx dy\<close> is the weight of the pixel at offset
  \<open>(dx, dy)\<close>) and the resampling of a picture drawn into a destination rectangle of
  another size or at a fractional position.
\<close>

record browser =
  kernel :: "real \<Rightarrow> int \<Rightarrow> int \<Rightarrow> real"
  resample :: "picture \<Rightarrow> real \<Rightarrow> real \<Rightarrow> real \<Rightarrow> real \<Rightarrow> bitmap"

definition in_canvas :: "nat \<Rightarrow> nat \<Rightarrow> nat \<times> nat \<Rightarrow> bool" where
  "in_canvas w h p = (fst p < w \<and> snd p < h)"

text \<open>Porter-Duff compositing of a premultiplied source pixel \<open>s\<close> onto a destination \<open>d\<close>.\<close>

fun blend :: "composite_op \<Rightarrow> rgba \<Rightarrow> rgba \<Rightarrow> rgba" where
  "blend SourceOver s d = add_px s (scale_px (1 - alpha s) d)"
| "blend Copy s d = s"
| "blend SourceIn s d = scale_px (alpha d) s"
| "blend DestinationIn s d = scale_px (alpha s) d"

text \<open>
  The layer a picture contributes when drawn into the rectangle \<open>(dx, dy, dw, dh)\<close>: the
  picture itself when the rectangle is its natural size at the origin, the browser's
  resampling otherwise.
\<close>

definition placed :: "browser \<Rightarrow> picture \<Rightarrow> real \<Rightarrow> real \<Rightarrow> real \<Rightarrow> real \<Rightarrow> bitmap" where
  "placed b img dx dy dw dh =
     (if dx = 0 \<and> dy = 0 \<and> dw = real (pwidth img) \<and> dh = real (pheight img)
      then (\<lambda>p. if in_canvas (pwidth img) (pheight img) p then pixels img p else transparent)
      else resample b img dx dy dw dh)"

definition conv :: "(real \<Rightarrow> int \<Rightarrow> int \<Rightarrow> real) \<Rightarrow> nat \<Rightarrow> nat \<Rightarrow> real \<Rightarrow> (nat \<times> nat \<Rightarrow> real)
    \<Rightarrow> nat \<times> nat \<Rightarrow> real" where
  "conv k w h r f p =
     (\<Sum>q\<leftarrow>List.product [0..<w] [0..<h].
        k r (int (fst p) - int (fst q)) (int (snd p) - int (snd q)) * f q)"

definition blurred :: "browser \<Rightarrow> nat \<Rightarrow> nat \<Rightarrow> real \<Rightarrow> bitmap \<Rightarrow> bitmap" where
  "blurred b w h r bm p =
     \<lparr>red = conv (kernel b) w h r (\<lambda>q. red (bm q)) p,
      green = conv (kernel b) w h r (\<lambda>q. green (bm q)) p,
      blue = conv (kernel b) w h r (\<lambda>q. blue (bm q)) p,
      alpha = conv (kernel b) w h r (\<lambda>q. alpha (bm q)) p\<rparr>"

definition apply_filter :: "browser \<Rightarrow> nat \<Rightarrow> nat \<Rightarrow> filter_value \<Rightarrow> bitmap \<Rightarrow> bitmap" where
  "apply_filter b w h f bm =
     (case f of NoFilter \<Rightarrow> bm | Blur r \<Rightarrow> if r \<le> 0 then bm else blurred b w h r bm)"

text \<open>
  What a successful \<^verbatim>\<open>drawImage\<close> paints: the layer is filtered, multiplied by
  \<^verbatim>\<open>globalAlpha\<close> and composited onto every pixel of the canvas with the current operator.
\<close>

definition paint :: "browser \<Rightarrow> picture \<Rightarrow> real \<Rightarrow> real \<Rightarrow> real \<Rightarrow> real \<Rightarrow> canvas_el \<Rightarrow> canvas_el" where
  "paint b img dx dy dw dh c =
     c\<lparr>bitmap := (\<lambda>p.
          if in_canvas (width c) (height c) p
          then blend (globalCompositeOperation c)
                 (scale_px (globalAlpha c)
                    (apply_filter b (width c) (height c) (filter_c c) (placed b img dx dy dw dh) p))
                 (bitmap c p)
          else transparent)\<rparr>"

definition clearRect :: "nat \<Rightarrow> nat \<Rightarrow> nat \<Rightarrow> nat \<Rightarrow> canvas_el \<Rightarrow> canvas_el" where
  "clearRect x y w h c =
     c\<lparr>bitmap := (\<lambda>p. if x \<le> fst p \<and> fst p < x + w \<and> y \<le> snd p \<and> snd p < y + h
                       then transparent else bitmap c p)\<rparr>"

text \<open>Assigning \<^verbatim>\<open>globalAlpha\<close> a value outside \<open>[0, 1]\<close> is ignored by the canvas.\<close>

definition set_globalAlpha :: "real \<Rightarrow> canvas_el \<Rightarrow> canvas_el" where
  "set_globalAlpha v c = (if 0 \<le> v \<and> v \<le> 1 then c\<lparr>globalAlpha := v\<rparr> else c)"

text \<open>\<^verbatim>\<open>ctx.restore()\<close> puts back the context state that \<^verbatim>\<open>ctx.save()\<close> recorded on \<open>c0\<close>.\<close>

definition restore :: "canvas_el \<Rightarrow> canvas_el \<Rightarrow> canvas_el" where
  "restore c0 c = c\<lparr>globalCompositeOperation := globalCompositeOperation c0,
                     globalAlpha := globalAlpha c0, filter_c := filter_c c0\<rparr>"

definition as_picture :: "canvas_el \<Rightarrow> picture" where
  "as_picture c = \<lparr>pwidth = width c, pheight = height c, pixels = bitmap c\<rparr>"

text \<open>Assigning \<^verbatim>\<open>width\<close> and \<^verbatim>\<open>height\<close> clears a canvas and resets its context.\<close>

definition set_size :: "nat \<Rightarrow> nat \<Rightarrow> canvas_el \<Rightarrow> canvas_el" where
  "set_size w h c = \<lparr>width = w, height = h, bitmap = (\<lambda>p. transparent),
                     globalCompositeOperation = SourceOver, globalAlpha = 1, filter_c = NoFilter\<rparr>"

definition createElement_canvas :: canvas_el where
  "createElement_canvas = \<lparr>width = 300, height = 150, bitmap = (\<lambda>p. transparent),
                           globalCompositeOperation = SourceOver, globalAlpha = 1, filter_c = NoFilter\<rparr>"

text \<open>
  The exceptions. \<^verbatim>\<open>ctx.drawImage(src, dx, dy, dw, dh)\<close> throws \<^verbatim>\<open>InvalidStateError\<close> when
  its source is a canvas of width or height zero, and paints otherwise. A source is one
  of the instance's canvases, or an image that is always drawable: the video element or
  an image handed over by the segmentation engine.
\<close>

datatype error = SegmentationNotLoaded | InvalidStateError

datatype source = Canvas canvas_el | Image picture

definition drawImage :: "browser \<Rightarrow> source \<Rightarrow> real \<Rightarrow> real \<Rightarrow> real \<Rightarrow> real \<Rightarrow> canvas_el
    \<Rightarrow> error + canvas_el" where
  "drawImage b src dx dy dw dh c =
     (case src of
        Canvas sc \<Rightarrow> if width sc = 0 \<or> height sc = 0 then Inl InvalidStateError
                     else Inr (paint b (as_picture sc) dx dy dw dh c)
      | Image img \<Rightarrow> Inr (paint b img dx dy dw dh c))"

section \<open>JavaScript numbers\<close>

text \<open>\<^verbatim>\<open>x|0\<close> is ToInt32: truncate towards zero, wrap modulo \<open>2^32\<close> into the signed range.\<close>

definition trunc :: "real \<Rightarrow> int" where
  "trunc x = (if 0 \<le> x then \<lfloor>x\<rfloor> else - \<lfloor>- x\<rfloor>)"

definition to_int32 :: "real \<Rightarrow> int" where
  "to_int32 x = (let n = trunc x mod 2 ^ 32 in if 2 ^ 31 \<le> n then n - 2 ^ 32 else n)"

text \<open>\<^verbatim>\<open>a || b\<close> on numbers: \<open>a\<close> when it is non-zero, \<open>b\<close> otherwise.\<close>

definition js_or :: "nat \<Rightarrow> nat \<Rightarrow> nat" where
  "js_or a b = (if a \<noteq> 0 then a else b)"

section \<open>The PersonMatte class\<close>

record options =
  modelSelection :: real
  featherPx :: real
  dilatePx :: real
  emaAlpha :: real
  rgbScale :: real
  depthFpsDivider :: real

text \<open>The options object passed by the caller: each field may be left out.\<close>

record given_options =
  g_modelSelection :: "real option"
  g_featherPx :: "real option"
  g_dilatePx :: "real option"
  g_emaAlpha :: "real option"
  g_rgbScale :: "real option"
  g_depthFpsDivider :: "real option"

text \<open>
  The video element as the matte reads it at one moment: readiness, intrinsic size,
  the \<^verbatim>\<open>width\<close>/\<^verbatim>\<open>height\<close> attributes and the picture it currently shows.
\<close>

record video =
  readyState :: nat
  videoWidth :: nat
  videoHeight :: nat
  attrWidth :: nat
  attrHeight :: nat
  showing :: bitmap

definition video_frame :: "video \<Rightarrow> picture" where
  "video_frame v = \<lparr>pwidth = videoWidth v, pheight = videoHeight v, pixels = showing v\<rparr>"

text \<open>The object the segmentation engine hands to the results listener.\<close>

record results =
  segmentationMask :: picture
  image_r :: "picture option"

text \<open>
  The instance. The last three components are not fields of the class: \<open>sends\<close> counts the
  calls of \<^verbatim>\<open>seg.send\<close>, \<open>renders\<close> the calls of \<^verbatim>\<open>_composite\<close> that ran to their end, and
  \<open>thrown\<close> is the exception with which the last call of \<^verbatim>\<open>_composite\<close> or \<^verbatim>\<open>_onResults\<close>
  ended, if it ended with one.
\<close>

record matte =
  opts :: options
  canvas :: canvas_el
  maskRaw :: canvas_el
  maskNice :: canvas_el
  scratch :: canvas_el
  stopped :: bool
  frame :: nat
  sends :: nat
  renders :: nat
  thrown :: "error option"

datatype revision = PersonMatte_js | Part_000

definition with_default :: "'a \<Rightarrow> 'a option \<Rightarrow> 'a" where
  "with_default d x = (case x of None \<Rightarrow> d | Some v \<Rightarrow> v)"

text \<open>
  The constructor. \<open>loaded\<close> says whether \<^verbatim>\<open>window.SelfieSegmentation\<close> exists.
\<close>

definition constructor :: "bool \<Rightarrow> given_options \<Rightarrow> error + matte" where
  "constructor loaded g =
     (if \<not> loaded then Inl SegmentationNotLoaded
      else Inr \<lparr>opts = \<lparr>modelSelection = with_default 1 (g_modelSelection g),
                        featherPx = with_default 1.0 (g_featherPx g),
                        dilatePx = with_default 0.6 (g_dilatePx g),
                        emaAlpha = with_default 0.35 (g_emaAlpha g),
                        rgbScale = with_default 0.992 (g_rgbScale g),
                        depthFpsDivider = with_default 1 (g_depthFpsDivider g)\<rparr>,
                canvas = createElement_canvas,
                maskRaw = createElement_canvas,
                maskNice = createElement_canvas,
                scratch = createElement_canvas,
                stopped = False, frame = 0, sends = 0, renders = 0, thrown = None\<rparr>)"

definition stop :: "matte \<Rightarrow> matte" where
  "stop s = s\<lparr>stopped := True\<rparr>"

subsection \<open>Statements on one canvas\<close>

text \<open>
  One statement of a method acting on one canvas of the instance. After an exception the
  remaining statements of the method are skipped, and a statement that throws leaves its
  canvas as it was.
\<close>

definition on_canvas :: "(canvas_el \<Rightarrow> error + canvas_el) \<Rightarrow> matte \<Rightarrow> matte" where
  "on_canvas f s =
     (case thrown s of
        Some e \<Rightarrow> s
      | None \<Rightarrow> (case f (canvas s) of Inl e \<Rightarrow> s\<lparr>thrown := Some e\<rparr> | Inr c \<Rightarrow> s\<lparr>canvas := c\<rparr>))"

definition on_maskRaw :: "(canvas_el \<Rightarrow> error + canvas_el) \<Rightarrow> matte \<Rightarrow> matte" where
  "on_maskRaw f s =
     (case thrown s of
        Some e \<Rightarrow> s
      | None \<Rightarrow> (case f (maskRaw s) of Inl e \<Rightarrow> s\<lparr>thrown := Some e\<rparr> | Inr c \<Rightarrow> s\<lparr>maskRaw := c\<rparr>))"

definition on_maskNice :: "(canvas_el \<Rightarrow> error + canvas_el) \<Rightarrow> matte \<Rightarrow> matte" where
  "on_maskNice f s =
     (case thrown s of
        Some e \<Rightarrow> s
      | None \<Rightarrow> (case f (maskNice s) of Inl e \<Rightarrow> s\<lparr>thrown := Some e\<rparr> | Inr c \<Rightarrow> s\<lparr>maskNice := c\<rparr>))"

definition on_scratch :: "(canvas_el \<Rightarrow> error + canvas_el) \<Rightarrow> matte \<Rightarrow> matte" where
  "on_scratch f s =
     (case thrown s of
        Some e \<Rightarrow> s
      | None \<Rightarrow> (case f (scratch s) of Inl e \<Rightarrow> s\<lparr>thrown := Some e\<rparr> | Inr c \<Rightarrow> s\<lparr>scratch := c\<rparr>))"

subsection \<open>\<^verbatim>\<open>_composite\<close>\<close>

text \<open>\<^verbatim>\<open>Math.min(1, Math.max(0.97, rgbScale))\<close>\<close>

definition shrink :: "options \<Rightarrow> real" where
  "shrink op = min 1 (max 0.97 (rgbScale op))"

text \<open>
  \<^verbatim>\<open>personMatte.js\<close>: clear, draw the mask, blur the mask over itself, then draw the frame
  with \<^verbatim>\<open>source-in\<close>. \<open>img\<close> is \<^verbatim>\<open>results.image\<close>, \<open>v\<close> the video element.
\<close>

definition composite_pm :: "browser \<Rightarrow> picture option \<Rightarrow> video \<Rightarrow> matte \<Rightarrow> matte" where
  "composite_pm b img v s =
     (let c0 = canvas s; w = width c0; h = height c0;
          s1 = on_canvas (\<lambda>c. Inr (clearRect 0 0 w h c)) (s\<lparr>thrown := None\<rparr>);
          s2 = on_canvas (\<lambda>c. Inr (c\<lparr>globalCompositeOperation := SourceOver\<rparr>)) s1;
          s3 = on_canvas (drawImage b (Canvas (maskNice s)) 0 0 (real w) (real h)) s2;
          s4 = (if featherPx (opts s) > 0.2
                then on_canvas (\<lambda>c. Inr (c\<lparr>filter_c := NoFilter\<rparr>))
                       (on_canvas (\<lambda>c. drawImage b (Canvas c) 0 0 (real (width c)) (real (height c)) c)
                          (on_canvas (\<lambda>c. Inr (c\<lparr>filter_c := Blur (featherPx (opts s) * 0.6)\<rparr>)) s3))
                else s3);
          s5 = on_canvas (\<lambda>c. Inr (c\<lparr>globalCompositeOperation := SourceIn\<rparr>)) s4;
          k = shrink (opts s);
          w2 = real w * k; h2 = real h * k; x = (real w - w2) / 2; y = (real h - h2) / 2;
          s6 = on_canvas (drawImage b (Image (with_default (video_frame v) img)) x y w2 h2) s5;
          s7 = on_canvas (\<lambda>c. Inr (restore c0 c)) s6
      in if thrown s7 = None then s7\<lparr>renders := renders s + 1\<rparr> else s7)"

text \<open>
  \<^verbatim>\<open>part_000\<close>: clear, copy the frame, keep it where the mask is (\<^verbatim>\<open>destination-in\<close>),
  then blur the masked result over itself.
\<close>

definition composite_p0 :: "browser \<Rightarrow> picture option \<Rightarrow> video \<Rightarrow> matte \<Rightarrow> matte" where
  "composite_p0 b img v s =
     (let c0 = canvas s; w = width c0; h = height c0;
          s1 = on_canvas (\<lambda>c. Inr (clearRect 0 0 w h c)) (s\<lparr>thrown := None\<rparr>);
          k = shrink (opts s);
          w2 = real w * k; h2 = real h * k; x = (real w - w2) / 2; y = (real h - h2) / 2;
          s2 = on_canvas (\<lambda>c. Inr (c\<lparr>globalCompositeOperation := Copy\<rparr>)) s1;
          s3 = on_canvas (drawImage b (Image (with_default (video_frame v) img)) x y w2 h2) s2;
          s4 = on_canvas (\<lambda>c. Inr (c\<lparr>globalCompositeOperation := DestinationIn\<rparr>)) s3;
          s5 = on_canvas (drawImage b (Canvas (maskNice s)) 0 0 (real w) (real h)) s4;
          s6 = (if featherPx (opts s) > 0.2
                then on_canvas (\<lambda>c. Inr (c\<lparr>filter_c := NoFilter\<rparr>))
                       (on_canvas (\<lambda>c. drawImage b (Canvas c) 0 0 (real (width c)) (real (height c)) c)
                          (on_canvas (\<lambda>c. Inr (c\<lparr>filter_c := Blur (featherPx (opts s) * 0.4)\<rparr>))
                             (on_canvas (\<lambda>c. Inr (c\<lparr>globalCompositeOperation := SourceOver\<rparr>)) s5)))
                else s5);
          s7 = on_canvas (\<lambda>c. Inr (restore c0 c)) s6
      in if thrown s7 = None then s7\<lparr>renders := renders s + 1\<rparr> else s7)"

fun composite :: "revision \<Rightarrow> browser \<Rightarrow> picture option \<Rightarrow> video \<Rightarrow> matte \<Rightarrow> matte" where
  "composite PersonMatte_js = composite_pm"
| "composite Part_000 = composite_p0"

subsection \<open>\<^verbatim>\<open>_onResults\<close>\<close>

text \<open>Steps 1 and 2: copy the raw mask, then blend it with the previous mask.\<close>

definition smooth :: "browser \<Rightarrow> results \<Rightarrow> matte \<Rightarrow> matte" where
  "smooth b res s =
     (let w = width (canvas s); h = height (canvas s);
          s1 = on_maskRaw (\<lambda>c. Inr (c\<lparr>globalCompositeOperation := Copy\<rparr>)) (s\<lparr>thrown := None\<rparr>);
          s2 = on_maskRaw (drawImage b (Image (segmentationMask res)) 0 0 (real w) (real h)) s1;
          s3 = on_scratch (\<lambda>c. Inr (c\<lparr>globalCompositeOperation := Copy\<rparr>)) s2;
          s4 = on_scratch (drawImage b (Canvas (maskNice s3)) 0 0 (real w) (real h)) s3;
          s5 = on_maskNice (\<lambda>c. Inr (clearRect 0 0 w h c)) s4;
          s6 = on_maskNice (\<lambda>c. Inr (set_globalAlpha (1 - emaAlpha (opts s)) c)) s5;
          s7 = on_maskNice (drawImage b (Canvas (scratch s6)) 0 0 (real w) (real h)) s6;
          s8 = on_maskNice (\<lambda>c. Inr (set_globalAlpha (emaAlpha (opts s)) c)) s7;
          s9 = on_maskNice (drawImage b (Canvas (maskRaw s8)) 0 0 (real w) (real h)) s8
      in on_maskNice (\<lambda>c. Inr (set_globalAlpha 1 c)) s9)"

text \<open>Step 3: feather and dilation as one blur of the mask, drawn onto the mask itself.\<close>

definition shape :: "browser \<Rightarrow> matte \<Rightarrow> matte" where
  "shape b s =
     (let w = width (canvas s); h = height (canvas s)
      in if dilatePx (opts s) > 0 \<or> featherPx (opts s) > 0
         then (let total = max 0 (dilatePx (opts s) + featherPx (opts s));
                   s1 = on_maskNice (\<lambda>c. Inr (c\<lparr>filter_c := Blur total\<rparr>)) s;
                   s2 = on_maskNice (\<lambda>c. drawImage b (Canvas c) 0 0 (real w) (real h) c) s1
               in on_maskNice (\<lambda>c. Inr (c\<lparr>filter_c := NoFilter\<rparr>)) s2)
         else s)"

text \<open>Steps 1 to 3, then step 4, the composite, unless an exception has ended the method.\<close>

definition onResults :: "revision \<Rightarrow> browser \<Rightarrow> video \<Rightarrow> results \<Rightarrow> matte \<Rightarrow> matte" where
  "onResults rv b v res s =
     (let s3 = shape b (smooth b res s)
      in if thrown s3 = None then composite rv b (image_r res) v s3 else s3)"

subsection \<open>\<^verbatim>\<open>_tick\<close> and the frame loop\<close>

text \<open>
  How the awaited \<^verbatim>\<open>seg.send\<close> goes: the engine calls the results listener and the promise
  resolves (an exception of the listener rejects it); the promise rejects; the promise
  resolves without the listener having been called; or the promise never settles.
\<close>

datatype provider_outcome = Delivers results | Rejects | Resolves | Never

text \<open>\<^verbatim>\<open>Math.max(1, depthFpsDivider|0)\<close>\<close>

definition divide :: "options \<Rightarrow> int" where
  "divide op = max 1 (to_int32 (depthFpsDivider op))"

text \<open>
  One call of \<^verbatim>\<open>_tick\<close>, with the video element as it is when drawn and the way the
  request goes (if one is made). The second component says whether
  \<^verbatim>\<open>requestAnimationFrame\<close> was reached: it is not when the instance is stopped, when the
  request never settles, and when \<^verbatim>\<open>_composite\<close> throws in the decimated branch or in
  the \<^verbatim>\<open>catch\<close> block, where nothing catches the exception.
\<close>

definition tick :: "revision \<Rightarrow> browser \<Rightarrow> video \<Rightarrow> provider_outcome \<Rightarrow> matte \<Rightarrow> matte \<times> bool" where
  "tick rv b v out s =
     (if stopped s then (s, False)
      else (let s1 = s\<lparr>frame := frame s + 1\<rparr>
            in if divide (opts s1) > 1 \<and> int (frame s1) mod divide (opts s1) \<noteq> 0
               then (let s2 = composite rv b (Some (video_frame v)) v s1 in (s2, thrown s2 = None))
               else (let s2 = s1\<lparr>sends := sends s1 + 1\<rparr>
                     in case out of
                          Delivers res \<Rightarrow>
                            (let s3 = onResults rv b v res s2
                             in if thrown s3 = None then (s3, True)
                                else (let s4 = composite rv b (Some (video_frame v)) v s3
                                      in (s4, thrown s4 = None)))
                        | Rejects \<Rightarrow>
                            (let s4 = composite rv b (Some (video_frame v)) v s2
                             in (s4, thrown s4 = None))
                        | Resolves \<Rightarrow> (s2, True)
                        | Never \<Rightarrow> (s2, False))))"

text \<open>
  The chain of animation-frame callbacks: each tick that re-arms itself is followed by the
  next. \<open>run\<close> is the instance after the chain has gone through the list as far as it gets,
  \<open>alive\<close> says whether a further tick is scheduled then.
\<close>

fun run :: "revision \<Rightarrow> browser \<Rightarrow> (video \<times> provider_outcome) list \<Rightarrow> matte \<Rightarrow> matte" where
  "run rv b [] s = s"
| "run rv b (e # es) s =
     (case tick rv b (fst e) (snd e) s of (s', again) \<Rightarrow> if again then run rv b es s' else s')"

fun alive :: "revision \<Rightarrow> browser \<Rightarrow> (video \<times> provider_outcome) list \<Rightarrow> matte \<Rightarrow> bool" where
  "alive rv b [] s = True"
| "alive rv b (e # es) s =
     (case tick rv b (fst e) (snd e) s of (s', again) \<Rightarrow> again \<and> alive rv b es s')"

subsection \<open>\<^verbatim>\<open>start\<close>\<close>

text \<open>
  \<^verbatim>\<open>_waitForVideo\<close>: \<open>v\<close> is the element when \<^verbatim>\<open>start\<close> is called, \<open>evs\<close> the element at each
  later \<^verbatim>\<open>loadeddata\<close> event. The result is the element at the moment the promise
  resolves, \<open>None\<close> when it never does.
\<close>

fun waitForVideo :: "revision \<Rightarrow> video \<Rightarrow> video list \<Rightarrow> video option" where
  "waitForVideo PersonMatte_js v evs =
     (if readyState v \<ge> 2 then Some v
      else (case evs of [] \<Rightarrow> None | e # _ \<Rightarrow> Some e))"
| "waitForVideo Part_000 v evs =
     (if readyState v \<ge> 2 \<and> to_int32 (real (videoWidth v)) \<noteq> 0 \<and> to_int32 (real (videoHeight v)) \<noteq> 0
      then Some v
      else find (\<lambda>e. to_int32 (real (videoWidth e)) \<noteq> 0 \<and> to_int32 (real (videoHeight e)) \<noteq> 0) evs)"

fun start_width :: "revision \<Rightarrow> video \<Rightarrow> nat" where
  "start_width PersonMatte_js v = js_or (videoWidth v) (attrWidth v)"
| "start_width Part_000 v = js_or (js_or (videoWidth v) (attrWidth v)) 640"

fun start_height :: "revision \<Rightarrow> video \<Rightarrow> nat" where
  "start_height PersonMatte_js v = js_or (videoHeight v) (attrHeight v)"
| "start_height Part_000 v = js_or (js_or (videoHeight v) (attrHeight v)) 480"

definition size_all :: "nat \<Rightarrow> nat \<Rightarrow> matte \<Rightarrow> matte" where
  "size_all w h s = s\<lparr>canvas := set_size w h (canvas s), maskRaw := set_size w h (maskRaw s),
                      maskNice := set_size w h (maskNice s), scratch := set_size w h (scratch s)\<rparr>"

text \<open>
  \<^verbatim>\<open>start\<close> up to the call of \<^verbatim>\<open>_tick\<close>: \<open>None\<close> while it stays suspended, otherwise the
  element it resumed with and the sized instance. The ticks that follow are \<open>run\<close>.
\<close>

definition start :: "revision \<Rightarrow> video \<Rightarrow> video list \<Rightarrow> matte \<Rightarrow> (video \<times> matte) option" where
  "start rv v evs s =
     (case waitForVideo rv v evs of
        None \<Rightarrow> None
      | Some v' \<Rightarrow> Some (v', size_all (start_width rv v') (start_height rv v') s))"

section \<open>Notions used in the statements\<close>

text \<open>
  The state that \<^verbatim>\<open>start\<close> establishes and every later operation keeps: the three mask
  canvases have the size of the output canvas, outside a call every context has
  \<^verbatim>\<open>globalAlpha = 1\<close> and no filter, the mask canvas blends with \<^verbatim>\<open>source-over\<close>, and the
  output bitmap holds nothing outside the canvas.
\<close>

definition plain :: "canvas_el \<Rightarrow> bool" where
  "plain c = (globalAlpha c = 1 \<and> filter_c c = NoFilter)"

definition same_size :: "canvas_el \<Rightarrow> canvas_el \<Rightarrow> bool" where
  "same_size c d = (width c = width d \<and> height c = height d)"

definition clipped :: "canvas_el \<Rightarrow> bool" where
  "clipped c = (\<forall>p. \<not> in_canvas (width c) (height c) p \<longrightarrow> bitmap c p = transparent)"

definition sized :: "matte \<Rightarrow> bool" where
  "sized s = (plain (canvas s) \<and> plain (maskRaw s) \<and> plain (maskNice s) \<and> plain (scratch s)
     \<and> same_size (maskRaw s) (canvas s) \<and> same_size (maskNice s) (canvas s)
     \<and> same_size (scratch s) (canvas s)
     \<and> globalCompositeOperation (maskNice s) = SourceOver
     \<and> clipped (canvas s))"

text \<open>A request that ends in a call of the compositor: a result is delivered, or it is rejected.\<close>

fun draws :: "provider_outcome \<Rightarrow> bool" where
  "draws (Delivers res) = True"
| "draws Rejects = True"
| "draws Resolves = False"
| "draws Never = False"

text \<open>Tick \<open>t\<close> (counted from 1) of the chain \<open>es\<close> calls the provider, or the compositor.\<close>

definition invoked_on :: "revision \<Rightarrow> browser \<Rightarrow> (video \<times> provider_outcome) list \<Rightarrow> matte \<Rightarrow> nat \<Rightarrow> bool" where
  "invoked_on rv b es s t =
     (sends (run rv b (take t es) s) = sends (run rv b (take (t - 1) es) s) + 1)"

definition rendered_on :: "revision \<Rightarrow> browser \<Rightarrow> (video \<times> provider_outcome) list \<Rightarrow> matte \<Rightarrow> nat \<Rightarrow> bool" where
  "rendered_on rv b es s t =
     (renders (run rv b (take t es) s) = renders (run rv b (take (t - 1) es) s) + 1)"

text \<open>The ticks \<open>1, k+1, 2k+1, \<dots>\<close> named by the decimation property of the specification.\<close>

definition claimed_request_tick :: "int \<Rightarrow> nat \<Rightarrow> bool" where
  "claimed_request_tick k t = (0 < t \<and> (int t - 1) mod k = 0)"

text \<open>The blend the specification asks of the smoother, for one channel of one pixel.\<close>

definition ema_spec :: "real \<Rightarrow> real \<Rightarrow> real \<Rightarrow> real" where
  "ema_spec a s_prev r = (1 - a) * s_prev + a * r"

text \<open>The clamp of the specification: \<open>clamp(x, lo, hi)\<close>.\<close>

definition clamp :: "real \<Rightarrow> real \<Rightarrow> real \<Rightarrow> real" where
  "clamp x lo hi = (if x < lo then lo else if hi < x then hi else x)"

text \<open>
  The frame as the specification places it in a \<open>w \<times> h\<close> canvas: scaled to
  \<open>(w * s, h * s)\<close> with \<open>s = clamp(rgbScale, 0.97, 1.0)\<close>, at the offsets
  \<open>((w - w * s) / 2, (h - h * s) / 2)\<close>.
\<close>

definition drawn_frame :: "browser \<Rightarrow> options \<Rightarrow> nat \<Rightarrow> nat \<Rightarrow> picture \<Rightarrow> bitmap" where
  "drawn_frame b op w h frm =
     (let k = clamp (rgbScale op) 0.97 1.0; w2 = real w * k; h2 = real h * k
      in (\<lambda>p. if in_canvas w h p
               then placed b frm ((real w - w2) / 2) ((real h - h2) / 2) w2 h2 p
               else transparent))"

text \<open>
  The compositor as the specification words it, with \<open>fr\<close> the fraction of \<^verbatim>\<open>featherPx\<close>
  used as the radius of the last blur: (1) clear; (2) draw the shrunk, centred frame in
  place of the destination; (3) scale every pixel by the mask value; (4) when
  \<^verbatim>\<open>featherPx > 0.2\<close>, blur the masked result and lay it over itself.
\<close>

definition spec_composite :: "browser \<Rightarrow> real \<Rightarrow> options \<Rightarrow> nat \<Rightarrow> nat \<Rightarrow> bitmap \<Rightarrow> picture \<Rightarrow> bitmap" where
  "spec_composite b fr op w h msk frm =
     (let masked = (\<lambda>p. scale_px (alpha (msk p)) (drawn_frame b op w h frm p))
      in if featherPx op > 0.2
         then (\<lambda>p. if in_canvas w h p
                    then blend SourceOver (blurred b w h (featherPx op * fr) masked p) (masked p)
                    else transparent)
         else masked)"

text \<open>
  The order of \<^verbatim>\<open>personMatte.js\<close>: the mask alone is blurred over itself (when
  \<^verbatim>\<open>featherPx > 0.2\<close>), and the frame is drawn last, scaled by the alpha found there.
\<close>

definition mask_first_composite :: "browser \<Rightarrow> real \<Rightarrow> options \<Rightarrow> nat \<Rightarrow> nat \<Rightarrow> bitmap \<Rightarrow> picture \<Rightarrow> bitmap" where
  "mask_first_composite b fr op w h msk frm =
     (let m = (\<lambda>p. if in_canvas w h p then msk p else transparent);
          m' = (if featherPx op > 0.2
                then (\<lambda>p. blend SourceOver (blurred b w h (featherPx op * fr) m p) (m p))
                else m)
      in (\<lambda>p. scale_px (alpha (m' p)) (drawn_frame b op w h frm p)))"

section \<open>Sample data\<close>

text \<open>
  A browser with a three-tap horizontal blur and a resampler that keeps the pixels whose
  centre lies in the destination rectangle, a ready video
  element, and the session obtained from the constructor and \<^verbatim>\<open>start\<close>.
\<close>

definition sample_browser :: browser where
  "sample_browser =
     \<lparr>kernel = (\<lambda>r dx dy. if dy = 0 \<and> dx = 0 then 1/2
                          else if dy = 0 \<and> (dx = 1 \<or> dx = - 1) then 1/4 else 0),
      resample = (\<lambda>img dx dy dw dh p.
                    if dx \<le> real (fst p) + 1/2 \<and> real (fst p) + 1/2 < dx + dw
                       \<and> dy \<le> real (snd p) + 1/2 \<and> real (snd p) + 1/2 < dy + dh
                    then pixels img p else transparent)\<rparr>"

text \<open>
  A browser with the same blur whose resampler weights each pixel by the part of it that
  the destination rectangle covers.
\<close>

definition cover :: "real \<Rightarrow> real \<Rightarrow> nat \<Rightarrow> real" where
  "cover d l i = max 0 (min (d + l) (real i + 1) - max d (real i))"

definition edge_browser :: browser where
  "edge_browser =
     \<lparr>kernel = (\<lambda>r dx dy. if dy = 0 \<and> dx = 0 then 1/2
                          else if dy = 0 \<and> (dx = 1 \<or> dx = - 1) then 1/4 else 0),
      resample = (\<lambda>img dx dy dw dh p.
                    scale_px (cover dx dw (fst p) * cover dy dh (snd p)) (pixels img p))\<rparr>"

definition opaque :: "real \<Rightarrow> real \<Rightarrow> real \<Rightarrow> rgba" where
  "opaque r g bl = \<lparr>red = r, green = g, blue = bl, alpha = 1\<rparr>"

definition sample_video :: "nat \<Rightarrow> nat \<Rightarrow> bitmap \<Rightarrow> video" where
  "sample_video w h bm = \<lparr>readyState = 4, videoWidth = w, videoHeight = h,
                          attrWidth = 0, attrHeight = 0, showing = bm\<rparr>"

definition no_options :: given_options where
  "no_options = \<lparr>g_modelSelection = None, g_featherPx = None, g_dilatePx = None,
                 g_emaAlpha = None, g_rgbScale = None, g_depthFpsDivider = None\<rparr>"

definition sample_session :: "revision \<Rightarrow> given_options \<Rightarrow> video \<Rightarrow> matte" where
  "sample_session rv g v = snd (the (start rv v [] (projr (constructor True g))))"

definition sample_results :: "nat \<Rightarrow> nat \<Rightarrow> bitmap \<Rightarrow> results" where
  "sample_results w h m = \<lparr>segmentationMask = \<lparr>pwidth = w, pheight = h, pixels = m\<rparr>, image_r = None\<rparr>"

text \<open>A one-pixel red video, an opaque one-pixel mask, and a session asking for every other frame.\<close>

definition red_video :: video where
  "red_video = sample_video 1 1 (\<lambda>p. opaque 1 0 0)"

definition full_mask :: results where
  "full_mask = sample_results 1 1 (\<lambda>p. opaque 1 1 1)"

definition every_other :: given_options where
  "every_other = no_options\<lparr>g_depthFpsDivider := Some 2\<rparr>"

definition sample_ticks :: "(video \<times> provider_outcome) list" where
  "sample_ticks = [(red_video, Delivers full_mask), (red_video, Rejects), (red_video, Delivers full_mask)]"

text \<open>A chain whose second request resolves without a result.\<close>

definition silent_ticks :: "(video \<times> provider_outcome) list" where
  "silent_ticks = [(red_video, Rejects), (red_video, Resolves)]"

text \<open>Options with \<^verbatim>\<open>emaAlpha = 0.5\<close> and no feather or dilation.\<close>

definition half_alpha :: given_options where
  "half_alpha = no_options\<lparr>g_emaAlpha := Some (1/2), g_featherPx := Some 0, g_dilatePx := Some 0\<rparr>"

text \<open>
  A two-pixel video (red, then blue), an opaque two-pixel mask, and options that take the
  newest mask as it is (\<^verbatim>\<open>emaAlpha = 1\<close>), do not shrink the frame and keep the default
  \<^verbatim>\<open>featherPx = 1\<close>; the same with \<^verbatim>\<open>featherPx = 0.1\<close>.
\<close>

definition two_tone :: video where
  "two_tone = sample_video 2 1 (\<lambda>p. if fst p = 0 then opaque 1 0 0 else opaque 0 0 1)"

definition wide_mask :: results where
  "wide_mask = sample_results 2 1 (\<lambda>p. opaque 1 1 1)"

definition sharp :: given_options where
  "sharp = no_options\<lparr>g_emaAlpha := Some 1, g_dilatePx := Some 0, g_rgbScale := Some 1\<rparr>"

definition sharp_unfeathered :: given_options where
  "sharp_unfeathered = sharp\<lparr>g_featherPx := Some (1/10)\<rparr>"

text \<open>The same two sets of options with \<^verbatim>\<open>rgbScale = 0.98\<close>.\<close>

definition shrunk :: given_options where
  "shrunk = sharp\<lparr>g_rgbScale := Some (98/100)\<rparr>"

definition shrunk_unfeathered :: given_options where
  "shrunk_unfeathered = sharp_unfeathered\<lparr>g_rgbScale := Some (98/100)\<rparr>"

text \<open>Options that take the newest mask as it is, with no feather and no dilation.\<close>

definition crisp :: given_options where
  "crisp = no_options\<lparr>g_emaAlpha := Some 1, g_featherPx := Some 0, g_dilatePx := Some 0\<rparr>"

text \<open>
  A video element that is ready but has no picture size (an audio-only stream, no size
  attributes), options with \<^verbatim>\<open>emaAlpha = 2\<close>, and a one-pixel blue video.
\<close>

definition audio_only :: video where
  "audio_only = \<lparr>readyState = 4, videoWidth = 0, videoHeight = 0,
                  attrWidth = 0, attrHeight = 0, showing = (\<lambda>p. transparent)\<rparr>"

definition over_alpha :: given_options where
  "over_alpha = no_options\<lparr>g_emaAlpha := Some 2\<rparr>"

definition blue_video :: video where
  "blue_video = sample_video 1 1 (\<lambda>p. opaque 0 0 1)"

text \<open>The session that \<^verbatim>\<open>personMatte.js\<close> starts on the video without picture size.\<close>

definition empty_session :: matte where
  "empty_session = snd (the (start PersonMatte_js audio_only [] (projr (constructor True no_options))))"

section \<open>Basic facts\<close>

lemma paint_ctx [simp]:
  "width (paint b img dx dy dw dh c) = width c"
  "height (paint b img dx dy dw dh c) = height c"
  "globalCompositeOperation (paint b img dx dy dw dh c) = globalCompositeOperation c"
  "globalAlpha (paint b img dx dy dw dh c) = globalAlpha c"
  "filter_c (paint b img dx dy dw dh c) = filter_c c"
  by (simp_all add: paint_def)

lemma clearRect_ctx [simp]:
  "width (clearRect x y w h c) = width c"
  "height (clearRect x y w h c) = height c"
  "globalCompositeOperation (clearRect x y w h c) = globalCompositeOperation c"
  "globalAlpha (clearRect x y w h c) = globalAlpha c"
  "filter_c (clearRect x y w h c) = filter_c c"
  by (simp_all add: clearRect_def)

lemma set_globalAlpha_ctx [simp]:
  "width (set_globalAlpha a c) = width c"
  "height (set_globalAlpha a c) = height c"
  "globalCompositeOperation (set_globalAlpha a c) = globalCompositeOperation c"
  "filter_c (set_globalAlpha a c) = filter_c c"
  "bitmap (set_globalAlpha a c) = bitmap c"
  by (simp_all add: set_globalAlpha_def)

lemma restore_ctx [simp]:
  "width (restore c0 c) = width c"
  "height (restore c0 c) = height c"
  "bitmap (restore c0 c) = bitmap c"
  "globalCompositeOperation (restore c0 c) = globalCompositeOperation c0"
  "globalAlpha (restore c0 c) = globalAlpha c0"
  "filter_c (restore c0 c) = filter_c c0"
  by (simp_all add: restore_def)

lemma drawImage_simps [simp]:
  "drawImage b (Image img) dx dy dw dh c = Inr (paint b img dx dy dw dh c)"
  "0 < width sc \<Longrightarrow> 0 < height sc \<Longrightarrow>
     drawImage b (Canvas sc) dx dy dw dh c = Inr (paint b (as_picture sc) dx dy dw dh c)"
  "width sc = 0 \<or> height sc = 0 \<Longrightarrow> drawImage b (Canvas sc) dx dy dw dh c = Inl InvalidStateError"
  by (auto simp: drawImage_def)

lemma on_skip:
  "thrown s \<noteq> None \<Longrightarrow> on_canvas f s = s"
  "thrown s \<noteq> None \<Longrightarrow> on_maskRaw f s = s"
  "thrown s \<noteq> None \<Longrightarrow> on_maskNice f s = s"
  "thrown s \<noteq> None \<Longrightarrow> on_scratch f s = s"
  by (auto simp: on_canvas_def on_maskRaw_def on_maskNice_def on_scratch_def)

lemma on_ok:
  "thrown s = None \<Longrightarrow> on_canvas f s =
     (case f (canvas s) of Inl e \<Rightarrow> s\<lparr>thrown := Some e\<rparr> | Inr c \<Rightarrow> s\<lparr>canvas := c\<rparr>)"
  "thrown s = None \<Longrightarrow> on_maskRaw f s =
     (case f (maskRaw s) of Inl e \<Rightarrow> s\<lparr>thrown := Some e\<rparr> | Inr c \<Rightarrow> s\<lparr>maskRaw := c\<rparr>)"
  "thrown s = None \<Longrightarrow> on_maskNice f s =
     (case f (maskNice s) of Inl e \<Rightarrow> s\<lparr>thrown := Some e\<rparr> | Inr c \<Rightarrow> s\<lparr>maskNice := c\<rparr>)"
  "thrown s = None \<Longrightarrow> on_scratch f s =
     (case f (scratch s) of Inl e \<Rightarrow> s\<lparr>thrown := Some e\<rparr> | Inr c \<Rightarrow> s\<lparr>scratch := c\<rparr>)"
  by (simp_all add: on_canvas_def on_maskRaw_def on_maskNice_def on_scratch_def)

lemma on_fields [simp]:
  "opts (on_canvas f s) = opts s" "stopped (on_canvas f s) = stopped s"
  "frame (on_canvas f s) = frame s" "sends (on_canvas f s) = sends s"
  "renders (on_canvas f s) = renders s"
  "maskRaw (on_canvas f s) = maskRaw s" "maskNice (on_canvas f s) = maskNice s"
  "scratch (on_canvas f s) = scratch s"
  "opts (on_maskRaw f s) = opts s" "stopped (on_maskRaw f s) = stopped s"
  "frame (on_maskRaw f s) = frame s" "sends (on_maskRaw f s) = sends s"
  "renders (on_maskRaw f s) = renders s"
  "canvas (on_maskRaw f s) = canvas s" "maskNice (on_maskRaw f s) = maskNice s"
  "scratch (on_maskRaw f s) = scratch s"
  "opts (on_maskNice f s) = opts s" "stopped (on_maskNice f s) = stopped s"
  "frame (on_maskNice f s) = frame s" "sends (on_maskNice f s) = sends s"
  "renders (on_maskNice f s) = renders s"
  "canvas (on_maskNice f s) = canvas s" "maskRaw (on_maskNice f s) = maskRaw s"
  "scratch (on_maskNice f s) = scratch s"
  "opts (on_scratch f s) = opts s" "stopped (on_scratch f s) = stopped s"
  "frame (on_scratch f s) = frame s" "sends (on_scratch f s) = sends s"
  "renders (on_scratch f s) = renders s"
  "canvas (on_scratch f s) = canvas s" "maskRaw (on_scratch f s) = maskRaw s"
  "maskNice (on_scratch f s) = maskNice s"
  by (simp_all add: on_canvas_def on_maskRaw_def on_maskNice_def on_scratch_def
      split: option.split sum.split)

lemma composite_frame [simp]:
  "opts (composite rv b img v s) = opts s"
  "stopped (composite rv b img v s) = stopped s"
  "frame (composite rv b img v s) = frame s"
  "sends (composite rv b img v s) = sends s"
  "maskRaw (composite rv b img v s) = maskRaw s"
  "maskNice (composite rv b img v s) = maskNice s"
  "scratch (composite rv b img v s) = scratch s"
  by (cases rv; simp add: composite_pm_def composite_p0_def Let_def)+

lemma composite_renders:
  "renders (composite rv b img v s) =
     (if thrown (composite rv b img v s) = None then renders s + 1 else renders s)"
  by (cases rv; simp add: composite_pm_def composite_p0_def Let_def)

lemma smooth_frame [simp]:
  "opts (smooth b res s) = opts s"
  "stopped (smooth b res s) = stopped s"
  "frame (smooth b res s) = frame s"
  "sends (smooth b res s) = sends s"
  "renders (smooth b res s) = renders s"
  "canvas (smooth b res s) = canvas s"
  by (simp_all add: smooth_def Let_def)

lemma shape_frame [simp]:
  "opts (shape b s) = opts s"
  "stopped (shape b s) = stopped s"
  "frame (shape b s) = frame s"
  "sends (shape b s) = sends s"
  "renders (shape b s) = renders s"
  "canvas (shape b s) = canvas s"
  "maskRaw (shape b s) = maskRaw s"
  "scratch (shape b s) = scratch s"
  by (simp_all add: shape_def Let_def)

lemma onResults_frame [simp]:
  "opts (onResults rv b v res s) = opts s"
  "stopped (onResults rv b v res s) = stopped s"
  "frame (onResults rv b v res s) = frame s"
  "sends (onResults rv b v res s) = sends s"
  by (simp_all add: onResults_def Let_def)

lemma scale_px_one [simp]: "scale_px 1 p = p"
  by (cases p) (simp add: scale_px_def)

lemma scale_px_transparent [simp]: "scale_px k transparent = transparent"
  by (simp add: scale_px_def transparent_def)

lemma scale_px_zero [simp]: "scale_px 0 p = transparent"
  by (simp add: scale_px_def transparent_def)

lemma add_px_transparent [simp]: "add_px transparent p = p" "add_px p transparent = p"
  by (cases p; simp add: add_px_def transparent_def)+

lemma conv_cong: "(\<And>q. in_canvas w h q \<Longrightarrow> f q = g q) \<Longrightarrow> conv k w h r f p = conv k w h r g p"
  unfolding conv_def
  by (rule arg_cong[where f=sum_list], rule map_cong) (auto simp: in_canvas_def)

lemma conv_zero: "(\<And>q. in_canvas w h q \<Longrightarrow> f q = 0) \<Longrightarrow> conv k w h r f p = 0"
proof -
  assume "\<And>q. in_canvas w h q \<Longrightarrow> f q = 0"
  then have "conv k w h r f p = conv k w h r (\<lambda>q. 0) p" by (intro conv_cong) simp
  then show ?thesis by (simp add: conv_def)
qed

lemma blurred_cong:
  "(\<And>q. in_canvas w h q \<Longrightarrow> f q = g q) \<Longrightarrow> blurred b w h r f p = blurred b w h r g p"
  unfolding blurred_def
  by (simp add: conv_cong[of w h "\<lambda>q. red (f q)" "\<lambda>q. red (g q)"]
      conv_cong[of w h "\<lambda>q. green (f q)" "\<lambda>q. green (g q)"]
      conv_cong[of w h "\<lambda>q. blue (f q)" "\<lambda>q. blue (g q)"]
      conv_cong[of w h "\<lambda>q. alpha (f q)" "\<lambda>q. alpha (g q)"])

lemma blurred_clip [simp]:
  "blurred b w h r (\<lambda>p. if in_canvas w h p then f p else transparent) = blurred b w h r f"
  by (rule ext, rule blurred_cong) simp

lemma placed_self:
  "width c = w \<Longrightarrow> height c = h \<Longrightarrow>
   placed b (as_picture c) 0 0 (real w) (real h) =
     (\<lambda>p. if in_canvas w h p then bitmap c p else transparent)"
  by (auto simp: placed_def as_picture_def)

lemma paint_bitmap:
  "bitmap (paint b img dx dy dw dh c) p =
     (if in_canvas (width c) (height c) p
      then blend (globalCompositeOperation c)
             (scale_px (globalAlpha c)
                (apply_filter b (width c) (height c) (filter_c c) (placed b img dx dy dw dh) p))
             (bitmap c p)
      else transparent)"
  by (simp add: paint_def)

lemma clearRect_bitmap:
  "bitmap (clearRect 0 0 w h c) p = (if in_canvas w h p then transparent else bitmap c p)"
  by (simp add: clearRect_def in_canvas_def)

lemma apply_filter_simps [simp]:
  "apply_filter b w h NoFilter bm = bm"
  "0 < r \<Longrightarrow> apply_filter b w h (Blur r) bm = blurred b w h r bm"
  "r \<le> 0 \<Longrightarrow> apply_filter b w h (Blur r) bm = bm"
  by (simp_all add: apply_filter_def)

lemma drawn_frame_outside [simp]:
  "\<not> in_canvas w h p \<Longrightarrow> drawn_frame b op w h frm p = transparent"
  by (simp add: drawn_frame_def Let_def)

lemma shrink_clamp: "shrink op = clamp (rgbScale op) 0.97 1.0"
  by (simp add: shrink_def clamp_def)

lemma composite_p0_eq:
  assumes "sized s" and "0 < width (canvas s)" and "0 < height (canvas s)"
  shows "composite_p0 b img v s =
    (let w = width (canvas s); h = height (canvas s);
         k = shrink (opts s);
         c1 = (clearRect 0 0 w h (canvas s))\<lparr>globalCompositeOperation := Copy\<rparr>;
         c3 = (paint b (with_default (video_frame v) img) ((real w - real w * k) / 2)
                 ((real h - real h * k) / 2) (real w * k) (real h * k) c1)
              \<lparr>globalCompositeOperation := DestinationIn\<rparr>;
         c5 = paint b (as_picture (maskNice s)) 0 0 (real w) (real h) c3;
         c6 = (if featherPx (opts s) > 0.2
               then (let f1 = c5\<lparr>globalCompositeOperation := SourceOver,
                                  filter_c := Blur (featherPx (opts s) * 0.4)\<rparr>
                     in (paint b (as_picture f1) 0 0 (real w) (real h) f1)\<lparr>filter_c := NoFilter\<rparr>)
               else c5)
     in s\<lparr>thrown := None, canvas := restore (canvas s) c6, renders := renders s + 1\<rparr>)"
proof -
  have m: "width (maskNice s) = width (canvas s)" "height (maskNice s) = height (canvas s)"
    using assms(1) by (simp_all add: sized_def same_size_def)
  show ?thesis
    using assms(2,3) by (simp add: composite_p0_def Let_def on_ok m)
qed

lemma composite_p0_zero:
  assumes "sized s" and "width (canvas s) = 0 \<or> height (canvas s) = 0"
  shows "composite_p0 b img v s =
    (let w = width (canvas s); h = height (canvas s); k = shrink (opts s);
         c1 = (clearRect 0 0 w h (canvas s))\<lparr>globalCompositeOperation := Copy\<rparr>;
         c3 = (paint b (with_default (video_frame v) img) ((real w - real w * k) / 2)
                 ((real h - real h * k) / 2) (real w * k) (real h * k) c1)
              \<lparr>globalCompositeOperation := DestinationIn\<rparr>
     in s\<lparr>thrown := Some InvalidStateError, canvas := c3\<rparr>)"
proof -
  have m: "width (maskNice s) = width (canvas s)" "height (maskNice s) = height (canvas s)"
    using assms(1) by (simp_all add: sized_def same_size_def)
  have d: "drawImage b (Canvas (maskNice s)) dx dy dw dh c = Inl InvalidStateError" for dx dy dw dh c
    using assms(2) by (simp add: m)
  show ?thesis
    by (simp add: composite_p0_def Let_def on_ok on_skip d)
qed

lemma composite_pm_eq:
  assumes "sized s" and "0 < width (canvas s)" and "0 < height (canvas s)"
  shows "composite_pm b img v s =
    (let w = width (canvas s); h = height (canvas s);
         k = shrink (opts s);
         c2 = (clearRect 0 0 w h (canvas s))\<lparr>globalCompositeOperation := SourceOver\<rparr>;
         c3 = paint b (as_picture (maskNice s)) 0 0 (real w) (real h) c2;
         c4 = (if featherPx (opts s) > 0.2
               then (let f1 = c3\<lparr>filter_c := Blur (featherPx (opts s) * 0.6)\<rparr>
                     in (paint b (as_picture f1) 0 0 (real w) (real h) f1)\<lparr>filter_c := NoFilter\<rparr>)
               else c3);
         c6 = paint b (with_default (video_frame v) img) ((real w - real w * k) / 2)
                 ((real h - real h * k) / 2) (real w * k) (real h * k)
                 (c4\<lparr>globalCompositeOperation := SourceIn\<rparr>)
     in s\<lparr>thrown := None, canvas := restore (canvas s) c6, renders := renders s + 1\<rparr>)"
proof -
  have m: "width (maskNice s) = width (canvas s)" "height (maskNice s) = height (canvas s)"
    using assms(1) by (simp_all add: sized_def same_size_def)
  show ?thesis
    using assms(2,3) by (simp add: composite_pm_def Let_def on_ok m)
qed

lemma composite_pm_zero:
  assumes "sized s" and "width (canvas s) = 0 \<or> height (canvas s) = 0"
  shows "composite_pm b img v s =
    s\<lparr>thrown := Some InvalidStateError,
      canvas := (clearRect 0 0 (width (canvas s)) (height (canvas s)) (canvas s))
                  \<lparr>globalCompositeOperation := SourceOver\<rparr>\<rparr>"
proof -
  have m: "width (maskNice s) = width (canvas s)" "height (maskNice s) = height (canvas s)"
    using assms(1) by (simp_all add: sized_def same_size_def)
  have d: "drawImage b (Canvas (maskNice s)) dx dy dw dh c = Inl InvalidStateError" for dx dy dw dh c
    using assms(2) by (simp add: m)
  show ?thesis
    by (simp add: composite_pm_def Let_def on_ok on_skip d)
qed

lemma smooth_eq:
  assumes "sized s" and "0 < width (canvas s)" and "0 < height (canvas s)"
  shows "smooth b res s =
     (let w = width (canvas s); h = height (canvas s);
          r2 = paint b (segmentationMask res) 0 0 (real w) (real h)
                 ((maskRaw s)\<lparr>globalCompositeOperation := Copy\<rparr>);
          s2 = paint b (as_picture (maskNice s)) 0 0 (real w) (real h)
                 ((scratch s)\<lparr>globalCompositeOperation := Copy\<rparr>);
          n1 = clearRect 0 0 w h (maskNice s);
          n2 = set_globalAlpha (1 - emaAlpha (opts s)) n1;
          n3 = paint b (as_picture s2) 0 0 (real w) (real h) n2;
          n4 = set_globalAlpha (emaAlpha (opts s)) n3;
          n5 = paint b (as_picture r2) 0 0 (real w) (real h) n4;
          n6 = set_globalAlpha 1 n5
      in s\<lparr>thrown := None, maskRaw := r2, scratch := s2, maskNice := n6\<rparr>)"
proof -
  have m: "width (maskNice s) = width (canvas s)" "height (maskNice s) = height (canvas s)"
    "width (maskRaw s) = width (canvas s)" "height (maskRaw s) = height (canvas s)"
    "width (scratch s) = width (canvas s)" "height (scratch s) = height (canvas s)"
    using assms(1) by (simp_all add: sized_def same_size_def)
  show ?thesis
    using assms(2,3) by (simp add: smooth_def Let_def on_ok m)
qed

lemma smooth_zero:
  assumes "sized s" and "width (canvas s) = 0 \<or> height (canvas s) = 0"
  shows "smooth b res s =
     s\<lparr>thrown := Some InvalidStateError,
       maskRaw := paint b (segmentationMask res) 0 0 (real (width (canvas s))) (real (height (canvas s)))
                 ((maskRaw s)\<lparr>globalCompositeOperation := Copy\<rparr>),
       scratch := (scratch s)\<lparr>globalCompositeOperation := Copy\<rparr>\<rparr>"
proof -
  have m: "width (maskNice s) = width (canvas s)" "height (maskNice s) = height (canvas s)"
    using assms(1) by (simp_all add: sized_def same_size_def)
  have d: "drawImage b (Canvas (maskNice s)) dx dy dw dh c = Inl InvalidStateError" for dx dy dw dh c
    using assms(2) by (simp add: m)
  show ?thesis
    by (simp add: smooth_def Let_def on_ok on_skip d)
qed

lemma shape_eq:
  assumes "thrown s = None" and "0 < width (maskNice s)" and "0 < height (maskNice s)"
  shows "shape b s =
     (let w = width (canvas s); h = height (canvas s); n = maskNice s
      in if dilatePx (opts s) > 0 \<or> featherPx (opts s) > 0
         then (let total = max 0 (dilatePx (opts s) + featherPx (opts s));
                   n1 = n\<lparr>filter_c := Blur total\<rparr>;
                   n2 = paint b (as_picture n1) 0 0 (real w) (real h) n1
               in s\<lparr>maskNice := n2\<lparr>filter_c := NoFilter\<rparr>\<rparr>)
         else s)"
  using assms by (simp add: shape_def Let_def on_ok)

lemma shape_skip: "thrown s \<noteq> None \<Longrightarrow> shape b s = s"
  by (simp add: shape_def Let_def on_skip)

lemma shape_thrown: "thrown s = None \<Longrightarrow> 0 < width (maskNice s) \<Longrightarrow> 0 < height (maskNice s)
    \<Longrightarrow> thrown (shape b s) = None"
  by (simp add: shape_eq Let_def)

lemma sized_facts:
  assumes "sized s"
  shows "width (maskNice s) = width (canvas s)" "height (maskNice s) = height (canvas s)"
    "width (maskRaw s) = width (canvas s)" "height (maskRaw s) = height (canvas s)"
    "width (scratch s) = width (canvas s)" "height (scratch s) = height (canvas s)"
    "globalAlpha (canvas s) = 1" "filter_c (canvas s) = NoFilter"
    "globalAlpha (maskNice s) = 1" "filter_c (maskNice s) = NoFilter"
    "globalAlpha (maskRaw s) = 1" "filter_c (maskRaw s) = NoFilter"
    "globalAlpha (scratch s) = 1" "filter_c (scratch s) = NoFilter"
    "globalCompositeOperation (maskNice s) = SourceOver"
  using assms by (simp_all add: sized_def plain_def same_size_def)

lemma sized_clipped:
  "sized s \<Longrightarrow> \<not> in_canvas (width (canvas s)) (height (canvas s)) p \<Longrightarrow> bitmap (canvas s) p = transparent"
  by (cases p) (simp add: sized_def clipped_def)

lemma no_pixels: "w = 0 \<or> h = 0 \<Longrightarrow> \<not> in_canvas w h p"
  by (auto simp: in_canvas_def)

lemma composite_thrown:
  assumes "sized s"
  shows "thrown (composite rv b img v s) =
     (if 0 < width (canvas s) \<and> 0 < height (canvas s) then None else Some InvalidStateError)"
proof (cases "0 < width (canvas s) \<and> 0 < height (canvas s)")
  case True
  then show ?thesis
    by (cases rv) (simp_all add: composite_pm_eq[OF assms] composite_p0_eq[OF assms] Let_def)
next
  case False
  then have z: "width (canvas s) = 0 \<or> height (canvas s) = 0" by auto
  show ?thesis using False
    by (cases rv) (simp_all add: composite_pm_zero[OF assms z] composite_p0_zero[OF assms z] Let_def)
qed

lemma composite_p0_pixels:
  assumes "sized s"
  shows "bitmap (canvas (composite Part_000 b img v s)) =
     spec_composite b 0.4 (opts s) (width (canvas s)) (height (canvas s)) (bitmap (maskNice s))
       (with_default (video_frame v) img)"
proof (cases "0 < width (canvas s) \<and> 0 < height (canvas s)")
  case True
  let ?w = "width (canvas s)" and ?h = "height (canvas s)"
  let ?frm = "with_default (video_frame v) img"
  let ?masked = "\<lambda>p. scale_px (alpha (bitmap (maskNice s) p)) (drawn_frame b (opts s) ?w ?h ?frm p)"
  note eq = composite_p0_eq[OF assms, of b img v]
  note f = sized_facts[OF assms]
  define c5 where "c5 = paint b (as_picture (maskNice s)) 0 0 (real ?w) (real ?h)
     ((paint b ?frm ((real ?w - real ?w * shrink (opts s)) / 2) ((real ?h - real ?h * shrink (opts s)) / 2)
         (real ?w * shrink (opts s)) (real ?h * shrink (opts s))
         ((clearRect 0 0 ?w ?h (canvas s))\<lparr>globalCompositeOperation := Copy\<rparr>))
       \<lparr>globalCompositeOperation := DestinationIn\<rparr>)"
  have c5: "bitmap c5 p = ?masked p" for p
    by (simp add: c5_def paint_bitmap clearRect_bitmap f(1,2,7,8) placed_self drawn_frame_def
        shrink_clamp Let_def)
  have c5w: "width c5 = ?w" "height c5 = ?h" "globalAlpha c5 = 1" "filter_c c5 = NoFilter"
    by (simp_all add: c5_def f(7,8))
  show ?thesis
  proof (cases "featherPx (opts s) > 0.2")
    case False
    then show ?thesis using True
      by (simp add: eq spec_composite_def Let_def c5_def[symmetric] c5 fun_eq_iff
          del: split_paired_All)
  next
    case feather: True
    then have pos: "0 < featherPx (opts s) * 0.4" by simp
    show ?thesis using True feather pos
      by (simp add: eq spec_composite_def Let_def c5_def[symmetric] fun_eq_iff
          paint_bitmap c5w placed_self c5 del: split_paired_All cong: if_cong)
  qed
next
  case False
  then have z: "width (canvas s) = 0 \<or> height (canvas s) = 0" by auto
  have n: "\<not> in_canvas (width (canvas s)) (height (canvas s)) p" for p
    by (rule no_pixels[OF z])
  show ?thesis
    by (simp add: composite_p0_zero[OF assms z] Let_def paint_bitmap n spec_composite_def
        fun_eq_iff del: split_paired_All)
qed

lemma composite_pm_pixels:
  assumes "sized s"
  shows "bitmap (canvas (composite PersonMatte_js b img v s)) =
     mask_first_composite b 0.6 (opts s) (width (canvas s)) (height (canvas s)) (bitmap (maskNice s))
       (with_default (video_frame v) img)"
proof (cases "0 < width (canvas s) \<and> 0 < height (canvas s)")
  case True
  note eq = composite_pm_eq[OF assms, of b img v]
  note f = sized_facts[OF assms]
  show ?thesis
  proof (cases "featherPx (opts s) > 0.2")
    case False
    then show ?thesis using True
      by (simp add: eq mask_first_composite_def Let_def paint_bitmap clearRect_bitmap f(1,2,7,8)
          placed_self drawn_frame_def shrink_clamp fun_eq_iff del: split_paired_All)
  next
    case feather: True
    then have "0 < featherPx (opts s) * 0.6" by simp
    then show ?thesis using True feather
      by (simp add: eq mask_first_composite_def Let_def paint_bitmap clearRect_bitmap f(1,2,7,8)
          placed_self drawn_frame_def shrink_clamp fun_eq_iff del: split_paired_All cong: if_cong)
  qed
next
  case False
  then have z: "width (canvas s) = 0 \<or> height (canvas s) = 0" by auto
  have n: "\<not> in_canvas (width (canvas s)) (height (canvas s)) p" for p
    by (rule no_pixels[OF z])
  show ?thesis
    by (simp add: composite_pm_zero[OF assms z] clearRect_bitmap n sized_clipped[OF assms]
        mask_first_composite_def fun_eq_iff del: split_paired_All)
qed

lemma sized_composite: "sized s \<Longrightarrow> sized (composite rv b img v s)"
proof -
  assume s: "sized s"
  note f = sized_facts[OF s]
  show ?thesis
  proof (cases "0 < width (canvas s) \<and> 0 < height (canvas s)")
    case True
    then show ?thesis using s
      by (cases rv)
        (simp_all add: composite_pm_eq[OF s] composite_p0_eq[OF s] Let_def sized_def plain_def
          same_size_def clipped_def paint_bitmap)
  next
    case False
    then have z: "width (canvas s) = 0 \<or> height (canvas s) = 0" by auto
    show ?thesis using s
      by (cases rv)
        (simp_all add: composite_pm_zero[OF s z] composite_p0_zero[OF s z] Let_def sized_def plain_def
          same_size_def clipped_def paint_bitmap clearRect_bitmap)
  qed
qed

lemma composite_size:
  assumes "sized s"
  shows "width (canvas (composite rv b img v s)) = width (canvas s)"
    "height (canvas (composite rv b img v s)) = height (canvas s)"
  using sized_composite[OF assms, of rv b img v] assms
  by (simp_all add: sized_def same_size_def)

lemma smooth_pixels:
  assumes "sized s" "0 \<le> emaAlpha (opts s)" "emaAlpha (opts s) \<le> 1"
    and "in_canvas (width (canvas s)) (height (canvas s)) p"
  shows "bitmap (maskNice (smooth b res s)) p =
     blend SourceOver
       (scale_px (emaAlpha (opts s))
          (placed b (segmentationMask res) 0 0 (real (width (canvas s))) (real (height (canvas s))) p))
       (scale_px (1 - emaAlpha (opts s)) (bitmap (maskNice s) p))"
proof -
  have pos: "0 < width (canvas s)" "0 < height (canvas s)"
    using assms(4) by (auto simp: in_canvas_def)
  note f = sized_facts[OF assms(1)]
  show ?thesis
    using assms(2-4)
    by (simp add: smooth_eq[OF assms(1) pos] Let_def paint_bitmap clearRect_bitmap placed_self
        f(1-15) set_globalAlpha_def)
qed

lemma smooth_scratch:
  assumes "sized s" and "in_canvas (width (canvas s)) (height (canvas s)) p"
  shows "bitmap (scratch (smooth b res s)) p = bitmap (maskNice s) p"
proof -
  have pos: "0 < width (canvas s)" "0 < height (canvas s)"
    using assms(2) by (auto simp: in_canvas_def)
  note f = sized_facts[OF assms(1)]
  show ?thesis
    using assms(2) by (simp add: smooth_eq[OF assms(1) pos] Let_def paint_bitmap placed_self f(1-15))
qed

lemma smooth_thrown:
  assumes "sized s"
  shows "thrown (smooth b res s) =
     (if 0 < width (canvas s) \<and> 0 < height (canvas s) then None else Some InvalidStateError)"
proof (cases "0 < width (canvas s) \<and> 0 < height (canvas s)")
  case True
  then show ?thesis by (simp add: smooth_eq[OF assms] Let_def)
next
  case False
  then have z: "width (canvas s) = 0 \<or> height (canvas s) = 0" by auto
  show ?thesis using False by (simp add: smooth_zero[OF assms z])
qed

lemma sized_smooth: "sized s \<Longrightarrow> sized (smooth b res s)"
proof -
  assume s: "sized s"
  show ?thesis
  proof (cases "0 < width (canvas s) \<and> 0 < height (canvas s)")
    case True
    then show ?thesis using s
      by (simp add: smooth_eq[OF s] Let_def sized_def plain_def same_size_def set_globalAlpha_def)
  next
    case False
    then have z: "width (canvas s) = 0 \<or> height (canvas s) = 0" by auto
    show ?thesis using s
      by (simp add: smooth_zero[OF s z] sized_def plain_def same_size_def)
  qed
qed

lemma shape_smooth_thrown:
  assumes "sized s"
  shows "thrown (shape b (smooth b res s)) =
     (if 0 < width (canvas s) \<and> 0 < height (canvas s) then None else Some InvalidStateError)"
proof (cases "0 < width (canvas s) \<and> 0 < height (canvas s)")
  case True
  have z: "sized (smooth b res s)" by (rule sized_smooth[OF assms])
  have "thrown (smooth b res s) = None" using True by (simp add: smooth_thrown[OF assms])
  moreover have "0 < width (maskNice (smooth b res s))" "0 < height (maskNice (smooth b res s))"
    using True sized_facts(1,2)[OF z] by simp_all
  ultimately show ?thesis using True by (simp add: shape_thrown)
next
  case False
  then show ?thesis by (simp add: smooth_thrown[OF assms] shape_skip)
qed

lemma shape_pixels:
  assumes "sized s" "thrown s = None" "in_canvas (width (canvas s)) (height (canvas s)) p"
  shows "bitmap (maskNice (shape b s)) p =
     (if dilatePx (opts s) > 0 \<or> featherPx (opts s) > 0
      then blend SourceOver
             (apply_filter b (width (canvas s)) (height (canvas s))
                (Blur (max 0 (dilatePx (opts s) + featherPx (opts s))))
                (\<lambda>q. if in_canvas (width (canvas s)) (height (canvas s)) q
                     then bitmap (maskNice s) q else transparent) p)
             (bitmap (maskNice s) p)
      else bitmap (maskNice s) p)"
proof -
  note f = sized_facts[OF assms(1)]
  have pos: "0 < width (maskNice s)" "0 < height (maskNice s)"
    using assms(3) by (auto simp: in_canvas_def f(1,2))
  show ?thesis using assms(3)
    by (simp add: shape_eq[OF assms(2) pos] Let_def paint_bitmap placed_self f(1-15) cong: if_cong)
qed

lemma sized_shape:
  assumes "sized s" and "thrown s \<noteq> None \<or> (0 < width (canvas s) \<and> 0 < height (canvas s))"
  shows "sized (shape b s)"
proof (cases "thrown s = None")
  case False
  then show ?thesis using assms(1) by (simp add: shape_skip)
next
  case True
  note f = sized_facts[OF assms(1)]
  have pos: "0 < width (maskNice s)" "0 < height (maskNice s)"
    using assms(2) True by (simp_all add: f(1,2))
  show ?thesis using assms(1)
    by (simp add: shape_eq[OF True pos] Let_def sized_def plain_def same_size_def)
qed

lemma sized_shape_smooth: "sized s \<Longrightarrow> sized (shape b (smooth b res s))"
proof -
  assume s: "sized s"
  have z: "sized (smooth b res s)" by (rule sized_smooth[OF s])
  show ?thesis
    by (rule sized_shape[OF z]) (simp add: smooth_thrown[OF s])
qed

lemma sized_onResults: "sized s \<Longrightarrow> sized (onResults rv b v res s)"
  by (simp add: onResults_def Let_def sized_composite sized_shape_smooth)

lemma sized_counters [simp]:
  "sized (s\<lparr>frame := f\<rparr>) = sized s"
  "sized (s\<lparr>sends := n\<rparr>) = sized s"
  "sized (s\<lparr>stopped := st\<rparr>) = sized s"
  by (simp_all add: sized_def)

lemma sized_tick: "sized s \<Longrightarrow> sized (fst (tick rv b v out s))"
  by (simp add: tick_def Let_def sized_onResults sized_composite split: provider_outcome.split)

lemma sized_size_all: "sized (size_all w h s)"
  by (simp add: sized_def size_all_def set_size_def plain_def same_size_def clipped_def)

lemma sized_start: "start rv v evs s = Some (v', s') \<Longrightarrow> sized s'"
  by (auto simp: start_def sized_size_all split: option.splits)

lemma onResults_ok:
  assumes "sized s" and "0 < width (canvas s)" and "0 < height (canvas s)"
  shows "thrown (onResults rv b v res s) = None"
    and "renders (onResults rv b v res s) = renders s + 1"
    and "onResults rv b v res s = composite rv b (image_r res) v (shape b (smooth b res s))"
proof -
  let ?s3 = "shape b (smooth b res s)"
  have z3: "sized ?s3" by (rule sized_shape_smooth[OF assms(1)])
  have t3: "thrown ?s3 = None" using assms(2,3) by (simp add: shape_smooth_thrown[OF assms(1)])
  show eq: "onResults rv b v res s = composite rv b (image_r res) v ?s3"
    by (simp add: onResults_def Let_def t3)
  show t: "thrown (onResults rv b v res s) = None"
    using assms(2,3) by (simp add: eq composite_thrown[OF z3])
  show "renders (onResults rv b v res s) = renders s + 1"
    using t by (simp add: eq composite_renders)
qed

lemma onResults_size:
  assumes "sized s"
  shows "width (canvas (onResults rv b v res s)) = width (canvas s)"
    "height (canvas (onResults rv b v res s)) = height (canvas s)"
  using composite_size[OF sized_shape_smooth[OF assms, of b res], of rv b "image_r res" v]
  by (simp_all add: onResults_def Let_def)

lemma tick_frame:
  "opts (fst (tick rv b v out s)) = opts s"
  "stopped (fst (tick rv b v out s)) = stopped s"
  "frame (fst (tick rv b v out s)) = (if stopped s then frame s else frame s + 1)"
  by (simp_all add: tick_def Let_def split: provider_outcome.split)

lemma tick_again_running: "snd (tick rv b v out s) \<Longrightarrow> \<not> stopped s"
  by (cases "stopped s") (simp_all add: tick_def)

lemma tick_sends:
  "\<not> stopped s \<Longrightarrow> sends (fst (tick rv b v out s)) =
     (if divide (opts s) > 1 \<and> int (frame s + 1) mod divide (opts s) \<noteq> 0 then sends s else sends s + 1)"
  by (simp add: tick_def Let_def split: provider_outcome.split)

lemma tick_size:
  assumes "sized s"
  shows "width (canvas (fst (tick rv b v out s))) = width (canvas s)"
    "height (canvas (fst (tick rv b v out s))) = height (canvas s)"
  using assms
  by (simp_all add: tick_def Let_def composite_size onResults_size sized_onResults
      split: provider_outcome.split)

text \<open>A tick of a session of non-zero size: what it renders and whether it re-arms itself.\<close>

lemma tick_nonzero:
  assumes "sized s" and "0 < width (canvas s)" and "0 < height (canvas s)" and "\<not> stopped s"
  shows "renders (fst (tick rv b v out s)) =
      (if (divide (opts s) > 1 \<and> int (frame s + 1) mod divide (opts s) \<noteq> 0) \<or> draws out
       then renders s + 1 else renders s)"
    and "snd (tick rv b v out s) =
      ((divide (opts s) > 1 \<and> int (frame s + 1) mod divide (opts s) \<noteq> 0) \<or> out \<noteq> Never)"
    and "thrown (fst (tick rv b v out s)) = None \<or> thrown (fst (tick rv b v out s)) = thrown s"
proof -
  have c: "thrown (composite rv b img v (s\<lparr>frame := f\<rparr>)) = None"
    "thrown (composite rv b img v (s\<lparr>frame := f, sends := n\<rparr>)) = None" for img f n
    using assms(1-3) by (simp_all add: composite_thrown)
  have o: "thrown (onResults rv b v res (s\<lparr>frame := f, sends := n\<rparr>)) = None"
    "renders (onResults rv b v res (s\<lparr>frame := f, sends := n\<rparr>)) = renders s + 1" for res f n
    using onResults_ok(1,2)[of "s\<lparr>frame := f, sends := n\<rparr>" rv b v res] assms(1-3)
    by simp_all
  show "renders (fst (tick rv b v out s)) =
      (if (divide (opts s) > 1 \<and> int (frame s + 1) mod divide (opts s) \<noteq> 0) \<or> draws out
       then renders s + 1 else renders s)"
    using assms(4) by (cases out) (simp_all add: tick_def Let_def composite_renders c o)
  show "snd (tick rv b v out s) =
      ((divide (opts s) > 1 \<and> int (frame s + 1) mod divide (opts s) \<noteq> 0) \<or> out \<noteq> Never)"
    using assms(4) by (cases out) (simp_all add: tick_def Let_def c o)
  show "thrown (fst (tick rv b v out s)) = None \<or> thrown (fst (tick rv b v out s)) = thrown s"
    using assms(4) by (cases out) (simp_all add: tick_def Let_def c o)
qed

lemma run_snoc:
  "run rv b (es @ [e]) s =
     (if alive rv b es s then fst (tick rv b (fst e) (snd e) (run rv b es s)) else run rv b es s)"
proof (induction es arbitrary: s)
  case Nil
  show ?case by (cases "tick rv b (fst e) (snd e) s") simp
next
  case (Cons x xs)
  show ?case
    by (cases "tick rv b (fst x) (snd x) s") (simp add: Cons.IH)
qed

lemma run_alive:
  assumes "alive rv b es s" and "\<not> stopped s" and "sized s"
  shows "\<not> stopped (run rv b es s)" and "frame (run rv b es s) = frame s + length es"
    and "opts (run rv b es s) = opts s" and "sized (run rv b es s)"
    and "width (canvas (run rv b es s)) = width (canvas s)"
    and "height (canvas (run rv b es s)) = height (canvas s)"
proof -
  have "\<not> stopped (run rv b es s) \<and> frame (run rv b es s) = frame s + length es
      \<and> opts (run rv b es s) = opts s \<and> sized (run rv b es s)
      \<and> width (canvas (run rv b es s)) = width (canvas s)
      \<and> height (canvas (run rv b es s)) = height (canvas s)"
    using assms
  proof (induction es arbitrary: s)
    case Nil
    then show ?case by simp
  next
    case (Cons x xs)
    let ?s = "fst (tick rv b (fst x) (snd x) s)"
    have a: "snd (tick rv b (fst x) (snd x) s)" "alive rv b xs ?s"
      using Cons.prems(1) by (simp_all add: case_prod_beta)
    have st: "\<not> stopped ?s" using Cons.prems(2) by (simp add: tick_frame)
    note tick_again_running
    have z: "sized ?s" by (rule sized_tick[OF Cons.prems(3)])
    from Cons.IH[OF a(2) st z] show ?case using a(1) Cons.prems(2,3)
      by (simp add: case_prod_beta tick_frame tick_size)
  qed
  then show "\<not> stopped (run rv b es s)" and "frame (run rv b es s) = frame s + length es"
    and "opts (run rv b es s) = opts s" and "sized (run rv b es s)"
    and "width (canvas (run rv b es s)) = width (canvas s)"
    and "height (canvas (run rv b es s)) = height (canvas s)"
    by simp_all
qed

lemma sized_run: "sized s \<Longrightarrow> sized (run rv b es s)"
proof (induction es arbitrary: s)
  case Nil
  then show ?case by simp
next
  case (Cons e es)
  have "sized (fst (tick rv b (fst e) (snd e) s))" by (rule sized_tick[OF Cons.prems])
  then show ?case using Cons.IH by (simp add: case_prod_beta)
qed

lemma to_int32_small: "0 \<le> n \<Longrightarrow> n < 2 ^ 31 \<Longrightarrow> to_int32 (real_of_int n) = n"
  by (simp add: to_int32_def trunc_def Let_def)

lemma to_int32_nat: "n < 2 ^ 31 \<Longrightarrow> to_int32 (real n) = int n"
  using to_int32_small[of "int n"] by simp

lemma sample_session_start:
  assumes "0 < w" "w < 2 ^ 31" "0 < h" "h < 2 ^ 31"
  shows "stopped (sample_session rv g (sample_video w h bm)) = False"
  "frame (sample_session rv g (sample_video w h bm)) = 0"
  "sends (sample_session rv g (sample_video w h bm)) = 0"
  "renders (sample_session rv g (sample_video w h bm)) = 0"
  "sized (sample_session rv g (sample_video w h bm))"
  "width (canvas (sample_session rv g (sample_video w h bm))) = w"
  "height (canvas (sample_session rv g (sample_video w h bm))) = h"
  "bitmap (canvas (sample_session rv g (sample_video w h bm))) = (\<lambda>p. transparent)"
  "bitmap (maskNice (sample_session rv g (sample_video w h bm))) = (\<lambda>p. transparent)"
  "opts (sample_session rv g (sample_video w h bm)) =
     \<lparr>modelSelection = with_default 1 (g_modelSelection g),
      featherPx = with_default 1.0 (g_featherPx g),
      dilatePx = with_default 0.6 (g_dilatePx g),
      emaAlpha = with_default 0.35 (g_emaAlpha g),
      rgbScale = with_default 0.992 (g_rgbScale g),
      depthFpsDivider = with_default 1 (g_depthFpsDivider g)\<rparr>"
  using assms to_int32_nat[of w] to_int32_nat[of h]
  by (cases rv; simp add: sample_session_def start_def sample_video_def constructor_def
      size_all_def sized_def plain_def same_size_def set_size_def js_or_def clipped_def)+

lemma divide_every_other: "divide (opts (sample_session rv every_other red_video)) = 2"
  using to_int32_small[of 2]
  by (simp add: red_video_def sample_session_start divide_def every_other_def no_options_def with_default_def)

section \<open>Decimation of mask requests\<close>

text \<open>
  C1 (as the code has it). In a session of non-zero size that has not been stopped, with
  effective divider \<open>k = Math.max(1, depthFpsDivider|0) > 1\<close>, for every tick \<open>t\<close> (counted
  from 1) that runs: the tick calls the mask provider if and only if \<open>t\<close> is a multiple of
  \<open>k\<close> (ticks \<open>k, 2k, 3k, \<dots>\<close>), and it runs the compositor if and only if it makes no
  request or its request delivers a result or is rejected.
\<close>

theorem C1_requests_on_multiples:
  assumes "sized s" and "0 < width (canvas s)" and "0 < height (canvas s)"
    and "\<not> stopped s" and "frame s = 0" and "1 < divide (opts s)"
    and "1 \<le> t" and "t \<le> length es" and "alive rv b (take (t - 1) es) s"
  shows "(invoked_on rv b es s t \<longleftrightarrow> divide (opts s) dvd int t)
     \<and> (rendered_on rv b es s t \<longleftrightarrow> \<not> divide (opts s) dvd int t \<or> draws (snd (es ! (t - 1))))"
proof -
  let ?before = "run rv b (take (t - 1) es) s"
  let ?e = "es ! (t - 1)"
  have tk: "take t es = take (t - 1) es @ [?e]"
    using assms(7,8) take_Suc_conv_app_nth[of "t - 1" es] by simp
  note r = run_alive[OF assms(9) assms(4) assms(1)]
  have st: "\<not> stopped ?before" and fr: "frame ?before = t - 1" and op: "opts ?before = opts s"
    and z: "sized ?before"
    and pos: "0 < width (canvas ?before)" "0 < height (canvas ?before)"
    using r assms(2,3,5,8) by simp_all
  have after: "run rv b (take t es) s = fst (tick rv b (fst ?e) (snd ?e) ?before)"
    using assms(9) by (simp add: tk run_snoc)
  have t': "int (frame ?before + 1) = int t" using fr assms(7) by simp
  have "sends (run rv b (take t es) s) =
      (if int t mod divide (opts s) \<noteq> 0 then sends ?before else sends ?before + 1)"
    unfolding after using tick_sends[OF st, of rv b "fst ?e" "snd ?e"] assms(6)
    by (simp only: op t') simp
  moreover have "renders (run rv b (take t es) s) =
      (if int t mod divide (opts s) \<noteq> 0 \<or> draws (snd ?e) then renders ?before + 1 else renders ?before)"
    unfolding after using tick_nonzero(1)[OF z pos st, of rv b "fst ?e" "snd ?e"] assms(6)
    by (simp only: op t') simp
  ultimately show ?thesis
    by (simp add: invoked_on_def rendered_on_def dvd_eq_mod_eq_0)
qed

lemma first_tick_alive:
  "alive rv sample_browser [(red_video, out)] (sample_session rv every_other red_video)"
proof -
  let ?s = "sample_session rv every_other red_video"
  have z: "sized ?s" and pos: "0 < width (canvas ?s)" "0 < height (canvas ?s)"
    and st: "\<not> stopped ?s" and fr: "frame ?s = 0"
    by (simp_all add: red_video_def sample_session_start)
  show ?thesis
    using tick_nonzero(2)[OF z pos st, of rv sample_browser red_video out]
    by (simp add: case_prod_beta divide_every_other fr)
qed

theorem C1_requests_on_multiples_witness:
  "invoked_on PersonMatte_js sample_browser sample_ticks
     (sample_session PersonMatte_js every_other red_video) 2
   \<and> rendered_on PersonMatte_js sample_browser sample_ticks
     (sample_session PersonMatte_js every_other red_video) 2
   \<and> invoked_on PersonMatte_js sample_browser silent_ticks
     (sample_session PersonMatte_js every_other red_video) 2
   \<and> \<not> rendered_on PersonMatte_js sample_browser silent_ticks
     (sample_session PersonMatte_js every_other red_video) 2"
proof -
  let ?s = "sample_session PersonMatte_js every_other red_video"
  have z: "sized ?s" and pos: "0 < width (canvas ?s)" "0 < height (canvas ?s)"
    and st: "\<not> stopped ?s" and fr: "frame ?s = 0"
    by (simp_all add: red_video_def sample_session_start)
  have d: "1 < divide (opts ?s)" by (simp add: divide_every_other)
  have a1: "alive PersonMatte_js sample_browser (take (2 - 1) sample_ticks) ?s"
    using first_tick_alive[of PersonMatte_js "Delivers full_mask"] by (simp add: sample_ticks_def)
  have a2: "alive PersonMatte_js sample_browser (take (2 - 1) silent_ticks) ?s"
    using first_tick_alive[of PersonMatte_js Rejects] by (simp add: silent_ticks_def)
  show ?thesis
    using C1_requests_on_multiples[OF z pos st fr d _ _ a1]
      C1_requests_on_multiples[OF z pos st fr d _ _ a2]
    by (simp add: divide_every_other sample_ticks_def silent_ticks_def)
qed

text \<open>
  C1 as stated names the ticks \<open>1, k+1, 2k+1, \<dots>\<close>. With \<open>depthFpsDivider = 2\<close> the first
  tick is one of them, and it makes no request: \<open>1 % 2\<close> is non-zero, so \<^verbatim>\<open>_tick\<close> only
  recomposites.
\<close>

theorem C1_first_tick_counterexample:
  "divide (opts (sample_session PersonMatte_js every_other red_video)) = 2
   \<and> claimed_request_tick 2 1
   \<and> \<not> invoked_on PersonMatte_js sample_browser sample_ticks
        (sample_session PersonMatte_js every_other red_video) 1"
proof -
  let ?s = "sample_session PersonMatte_js every_other red_video"
  have st: "\<not> stopped ?s" and fr: "frame ?s = 0"
    by (simp_all add: red_video_def sample_session_start)
  have "sends (fst (tick PersonMatte_js sample_browser red_video (Delivers full_mask) ?s)) = sends ?s"
    using tick_sends[OF st, of PersonMatte_js sample_browser red_video "Delivers full_mask"]
    by (simp add: divide_every_other fr)
  then show ?thesis
    by (simp add: divide_every_other claimed_request_tick_def invoked_on_def sample_ticks_def
        case_prod_beta)
qed

section \<open>Temporal smoothing of the mask\<close>

lemma onResults_masks [simp]:
  "maskNice (onResults rv b v res s) = maskNice (shape b (smooth b res s))"
  "maskRaw (onResults rv b v res s) = maskRaw (smooth b res s)"
  "scratch (onResults rv b v res s) = scratch (smooth b res s)"
  by (simp_all add: onResults_def Let_def)

lemma shape_off: "dilatePx (opts s) \<le> 0 \<Longrightarrow> featherPx (opts s) \<le> 0 \<Longrightarrow> shape b s = s"
  by (simp add: shape_def Let_def)

lemma smooth_alpha:
  assumes "sized s" "0 \<le> emaAlpha (opts s)" "emaAlpha (opts s) \<le> 1"
    and "in_canvas (width (canvas s)) (height (canvas s)) p"
  shows "alpha (bitmap (maskNice (smooth b res s)) p) =
     emaAlpha (opts s) * alpha (placed b (segmentationMask res) 0 0 (real (width (canvas s))) (real (height (canvas s))) p)
     + (1 - emaAlpha (opts s) * alpha (placed b (segmentationMask res) 0 0 (real (width (canvas s))) (real (height (canvas s))) p))
       * ((1 - emaAlpha (opts s)) * alpha (bitmap (maskNice s) p))"
  by (simp add: smooth_pixels[OF assms] add_px_def scale_px_def)

text \<open>
  C2. The specification asks, per pixel, for \<open>S_new = (1 - \<alpha>) * S_prev + \<alpha> * R\<close>. The
  code draws the previous mask with \<^verbatim>\<open>globalAlpha = 1 - \<alpha>\<close> and then the raw mask with
  \<^verbatim>\<open>globalAlpha = \<alpha>\<close>, both with \<^verbatim>\<open>source-over\<close>, which gives
  \<open>\<alpha> * R + (1 - \<alpha> * R) * (1 - \<alpha>) * S_prev\<close> (lemma \<open>smooth_alpha\<close>). On a fresh
  session with \<^verbatim>\<open>emaAlpha = 0.5\<close> and an opaque mask pixel the first response gives \<open>1/2\<close>
  (the previous mask counts as zero and the blend is not skipped), the second gives \<open>5/8\<close>
  where the specified blend gives \<open>3/4\<close>.
\<close>

theorem C2_blend_diverges:
  "alpha (bitmap (maskNice (onResults PersonMatte_js sample_browser red_video full_mask
      (sample_session PersonMatte_js half_alpha red_video))) (0, 0)) = 1/2
   \<and> alpha (bitmap (maskNice (onResults PersonMatte_js sample_browser red_video full_mask
      (onResults PersonMatte_js sample_browser red_video full_mask
        (sample_session PersonMatte_js half_alpha red_video)))) (0, 0)) = 5/8
   \<and> ema_spec (1/2) (1/2) 1 = 3/4"
proof -
  let ?s0 = "sample_session PersonMatte_js half_alpha red_video"
  let ?s1 = "onResults PersonMatte_js sample_browser red_video full_mask ?s0"
  have o: "emaAlpha (opts ?s0) = 1/2" "dilatePx (opts ?s0) = 0" "featherPx (opts ?s0) = 0"
    and z0: "sized ?s0" and w0: "width (canvas ?s0) = 1" "height (canvas ?s0) = 1"
    and m0: "bitmap (maskNice ?s0) = (\<lambda>p. transparent)"
    by (simp_all add: red_video_def sample_session_start half_alpha_def no_options_def with_default_def)
  have r: "alpha (placed sample_browser (segmentationMask full_mask) 0 0 1 1 (0, 0)) = 1"
    by (simp add: full_mask_def sample_results_def placed_def in_canvas_def opaque_def)
  have in0: "in_canvas 1 1 (0, 0)" by (simp add: in_canvas_def)
  have a1: "alpha (bitmap (maskNice ?s1) (0, 0)) = 1/2"
    using smooth_alpha[of ?s0 "(0, 0)" sample_browser full_mask] in0
    by (simp add: shape_off o z0 w0 m0 r transparent_def)
  have a1n: "alpha (bitmap (maskNice (smooth sample_browser full_mask ?s0)) (0, 0)) = 1/2"
    using a1 by (simp add: shape_off o)
  have z1: "sized ?s1" by (rule sized_onResults[OF z0])
  have w1: "width (canvas ?s1) = 1" "height (canvas ?s1) = 1"
    using onResults_size[OF z0, of PersonMatte_js sample_browser red_video full_mask] by (simp_all add: w0)
  have a2: "alpha (bitmap (maskNice (onResults PersonMatte_js sample_browser red_video full_mask ?s1)) (0, 0)) = 5/8"
    using smooth_alpha[of ?s1 "(0, 0)" sample_browser full_mask] in0
    by (simp add: shape_off o z1 w1 r a1n)
  show ?thesis using a1 a2 by (simp add: ema_spec_def)
qed

section \<open>The order of the compositor\<close>

lemma mask_first_eq_spec:
  "featherPx op \<le> 0.2 \<Longrightarrow> mask_first_composite b fr op w h msk frm = spec_composite b fr' op w h msk frm"
  by (auto simp: mask_first_composite_def spec_composite_def Let_def fun_eq_iff)

lemma conv_2x1:
  "conv k 2 (Suc 0) r f p = k r (int (fst p)) (int (snd p)) * f (0, 0)
     + k r (int (fst p) - 1) (int (snd p)) * f (1, 0)"
  by (simp add: conv_def eval_nat_numeral)

lemma blurred_three_tap:
  assumes "kernel b = kernel sample_browser"
  shows "blurred b 2 (Suc 0) r f (0, 0) = add_px (scale_px (1/2) (f (0, 0))) (scale_px (1/4) (f (Suc 0, 0)))"
    and "blurred b 2 (Suc 0) r f (Suc 0, 0) = add_px (scale_px (1/4) (f (0, 0))) (scale_px (1/2) (f (Suc 0, 0)))"
  by (simp_all add: blurred_def conv_2x1 assms sample_browser_def add_px_def scale_px_def)

lemmas blurred_sample = blurred_three_tap[OF refl]

lemma kernel_edge: "kernel edge_browser = kernel sample_browser"
  by (simp add: edge_browser_def sample_browser_def)

lemma two_tone_session:
  "stopped (sample_session rv g two_tone) = False"
  "sized (sample_session rv g two_tone)"
  "width (canvas (sample_session rv g two_tone)) = 2"
  "height (canvas (sample_session rv g two_tone)) = 1"
  "bitmap (maskNice (sample_session rv g two_tone)) = (\<lambda>p. transparent)"
  "opts (sample_session rv g two_tone) =
     \<lparr>modelSelection = with_default 1 (g_modelSelection g),
      featherPx = with_default 1.0 (g_featherPx g),
      dilatePx = with_default 0.6 (g_dilatePx g),
      emaAlpha = with_default 0.35 (g_emaAlpha g),
      rgbScale = with_default 0.992 (g_rgbScale g),
      depthFpsDivider = with_default 1 (g_depthFpsDivider g)\<rparr>"
  by (simp_all add: two_tone_def sample_session_start)

text \<open>
  With \<^verbatim>\<open>emaAlpha = 1\<close>, no dilation and some feather, one response with the opaque mask
  leaves the mask canvas opaque at both pixels.
\<close>

lemma sharp_mask:
  assumes "g_emaAlpha g = Some 1" and "g_dilatePx g = Some 0"
    and "0 < with_default 1.0 (g_featherPx g)"
    and "kernel b = kernel sample_browser" and "in_canvas 2 1 p"
  shows "bitmap (maskNice (shape b (smooth b wide_mask (sample_session rv g two_tone)))) p = opaque 1 1 1"
proof -
  let ?s0 = "sample_session rv g two_tone"
  let ?s1 = "smooth b wide_mask ?s0"
  have o: "emaAlpha (opts ?s0) = 1" "dilatePx (opts ?s0) = 0" "0 < featherPx (opts ?s0)"
    using assms(1-3) by (simp_all add: two_tone_session with_default_def)
  have sm: "bitmap (maskNice ?s1) q = opaque 1 1 1" if "in_canvas 2 1 q" for q
    using smooth_pixels[of ?s0 q b wide_mask] that o
    by (simp add: two_tone_session(2-5) wide_mask_def sample_results_def placed_def)
  have z1: "sized ?s1" by (simp add: sized_smooth two_tone_session)
  have t1: "thrown ?s1 = None" by (simp add: smooth_thrown two_tone_session)
  have p: "p = (0, 0) \<or> p = (1, 0)" using assms(5) by (cases p) (auto simp: in_canvas_def)
  have sm0: "bitmap (maskNice ?s1) (0, 0) = opaque 1 1 1" "bitmap (maskNice ?s1) (Suc 0, 0) = opaque 1 1 1"
    by (simp_all add: sm in_canvas_def)
  have r: "max 0 (dilatePx (opts ?s0) + featherPx (opts ?s0)) = featherPx (opts ?s0)"
    using o by simp
  have sh: "bitmap (maskNice (shape b ?s1)) p =
      blend SourceOver (blurred b 2 (Suc 0) (featherPx (opts ?s0)) (bitmap (maskNice ?s1)) p)
        (bitmap (maskNice ?s1) p)"
    using shape_pixels[OF z1 t1, of p b] assms(5) o(3)
    by (simp add: two_tone_session(2-5) r o(3))
  show ?thesis using p
    by (auto simp: sh blurred_three_tap[OF assms(4)] sm0 opaque_def add_px_def scale_px_def)
qed

lemma two_tone_drawn:
  "drawn_frame sample_browser (opts (sample_session rv sharp two_tone)) 2 (Suc 0) (video_frame two_tone) (0, 0)
     = opaque 1 0 0"
  "drawn_frame sample_browser (opts (sample_session rv sharp two_tone)) 2 (Suc 0) (video_frame two_tone) (Suc 0, 0)
     = opaque 0 0 1"
proof -
  have o: "clamp (rgbScale (opts (sample_session rv sharp two_tone))) 0.97 1.0 = 1"
    by (simp add: clamp_def two_tone_session sharp_def no_options_def with_default_def)
  show "drawn_frame sample_browser (opts (sample_session rv sharp two_tone)) 2 (Suc 0) (video_frame two_tone) (0, 0)
     = opaque 1 0 0"
    unfolding drawn_frame_def Let_def o
    by (simp add: placed_def video_frame_def two_tone_def sample_video_def in_canvas_def)
  show "drawn_frame sample_browser (opts (sample_session rv sharp two_tone)) 2 (Suc 0) (video_frame two_tone) (Suc 0, 0)
     = opaque 0 0 1"
    unfolding drawn_frame_def Let_def o
    by (simp add: placed_def video_frame_def two_tone_def sample_video_def in_canvas_def)
qed

text \<open>With \<^verbatim>\<open>rgbScale = 0.98\<close> the frame covers \<open>0.98 * 0.98\<close> of each of the two pixels.\<close>

lemma two_tone_drawn_shrunk:
  assumes "g_rgbScale g = Some (98/100)"
  shows "drawn_frame edge_browser (opts (sample_session rv g two_tone)) 2 (Suc 0) (video_frame two_tone) (0, 0)
     = scale_px (9604/10000) (opaque 1 0 0)"
    and "drawn_frame edge_browser (opts (sample_session rv g two_tone)) 2 (Suc 0) (video_frame two_tone) (Suc 0, 0)
     = scale_px (9604/10000) (opaque 0 0 1)"
proof -
  have o: "clamp (rgbScale (opts (sample_session rv g two_tone))) 0.97 1.0 = 98/100"
    using assms by (simp add: clamp_def two_tone_session with_default_def)
  show "drawn_frame edge_browser (opts (sample_session rv g two_tone)) 2 (Suc 0) (video_frame two_tone) (0, 0)
     = scale_px (9604/10000) (opaque 1 0 0)"
    unfolding drawn_frame_def Let_def o
    by (simp add: placed_def video_frame_def two_tone_def sample_video_def in_canvas_def
        edge_browser_def cover_def)
  show "drawn_frame edge_browser (opts (sample_session rv g two_tone)) 2 (Suc 0) (video_frame two_tone) (Suc 0, 0)
     = scale_px (9604/10000) (opaque 0 0 1)"
    unfolding drawn_frame_def Let_def o
    by (simp add: placed_def video_frame_def two_tone_def sample_video_def in_canvas_def
        edge_browser_def cover_def)
qed

text \<open>
  C3 (as the code has it). With the canvases sized by \<^verbatim>\<open>start\<close>, the compositor of
  \<^verbatim>\<open>part_000\<close> performs the stated order: clear, opaque copy of the frame shrunk by
  \<open>clamp(rgbScale, 0.97, 1)\<close> and centred, multiplication by the shaped mask, and, exactly
  when \<^verbatim>\<open>featherPx > 0.2\<close>, one blur of radius \<open>0.4 * featherPx\<close> of the masked result laid
  over itself. The compositor of \<^verbatim>\<open>personMatte.js\<close> draws the mask first, blurs the mask
  alone (radius \<open>0.6 * featherPx\<close>) over itself and draws the frame last through
  \<^verbatim>\<open>source-in\<close>; it gives the output of the stated order whenever \<^verbatim>\<open>featherPx \<le> 0.2\<close>.
\<close>

theorem C3_composite_order:
  assumes "sized s"
  shows "bitmap (canvas (composite Part_000 b img v s)) =
       spec_composite b 0.4 (opts s) (width (canvas s)) (height (canvas s)) (bitmap (maskNice s))
         (with_default (video_frame v) img)
     \<and> bitmap (canvas (composite PersonMatte_js b img v s)) =
       mask_first_composite b 0.6 (opts s) (width (canvas s)) (height (canvas s)) (bitmap (maskNice s))
         (with_default (video_frame v) img)
     \<and> (featherPx (opts s) \<le> 0.2 \<longrightarrow>
          bitmap (canvas (composite PersonMatte_js b img v s)) =
            spec_composite b fr (opts s) (width (canvas s)) (height (canvas s)) (bitmap (maskNice s))
              (with_default (video_frame v) img))"
  using composite_p0_pixels[OF assms, of b img v] composite_pm_pixels[OF assms, of b img v]
    mask_first_eq_spec[of "opts s" b "0.6" "width (canvas s)" "height (canvas s)"
      "bitmap (maskNice s)" "with_default (video_frame v) img" fr]
  by simp

text \<open>
  Both orders at work, after one response with the opaque mask on the red-and-blue video
  with \<^verbatim>\<open>rgbScale = 0.98\<close>. In \<^verbatim>\<open>part_000\<close> with \<^verbatim>\<open>featherPx = 1\<close> the left pixel holds the
  blurred, masked frame laid over itself. In \<^verbatim>\<open>personMatte.js\<close> with \<^verbatim>\<open>featherPx = 0.1\<close> it
  holds the shrunk frame alone.
\<close>

theorem C3_composite_order_witness:
  "bitmap (canvas (composite Part_000 edge_browser None two_tone
      (shape edge_browser (smooth edge_browser wide_mask (sample_session Part_000 shrunk two_tone))))) (0, 0)
     = \<lparr>red = 74882388/100000000, green = 0, blue = 2401/10000, alpha = 98892388/100000000\<rparr>
   \<and> bitmap (canvas (composite PersonMatte_js edge_browser None two_tone
      (shape edge_browser (smooth edge_browser wide_mask
         (sample_session PersonMatte_js shrunk_unfeathered two_tone))))) (0, 0)
     = \<lparr>red = 9604/10000, green = 0, blue = 0, alpha = 9604/10000\<rparr>"
proof -
  let ?p0 = "sample_session Part_000 shrunk two_tone"
  let ?p2 = "shape edge_browser (smooth edge_browser wide_mask ?p0)"
  let ?q0 = "sample_session PersonMatte_js shrunk_unfeathered two_tone"
  let ?q2 = "shape edge_browser (smooth edge_browser wide_mask ?q0)"
  have zp: "sized ?p2" and zq: "sized ?q2"
    by (simp_all add: sized_shape_smooth two_tone_session)
  have fp: "featherPx (opts ?p0) = 1" and fq: "featherPx (opts ?q0) = 1/10"
    by (simp_all add: two_tone_session shrunk_def shrunk_unfeathered_def sharp_unfeathered_def
        sharp_def no_options_def with_default_def)
  have c: "in_canvas 2 (Suc 0) (0, 0)" "in_canvas 2 (Suc 0) (Suc 0, 0)" by (simp_all add: in_canvas_def)
  have mp: "bitmap (maskNice ?p2) (0, 0) = opaque 1 1 1" "bitmap (maskNice ?p2) (Suc 0, 0) = opaque 1 1 1"
    using sharp_mask[of shrunk edge_browser "(0, 0)" Part_000]
      sharp_mask[of shrunk edge_browser "(Suc 0, 0)" Part_000]
    by (simp_all add: in_canvas_def kernel_edge shrunk_def sharp_def no_options_def with_default_def)
  have mq: "bitmap (maskNice ?q2) (0, 0) = opaque 1 1 1"
    using sharp_mask[of shrunk_unfeathered edge_browser "(0, 0)" PersonMatte_js]
    by (simp add: in_canvas_def kernel_edge shrunk_unfeathered_def sharp_unfeathered_def sharp_def
        no_options_def with_default_def)
  have dp: "g_rgbScale shrunk = Some (98/100)" and dq: "g_rgbScale shrunk_unfeathered = Some (98/100)"
    by (simp_all add: shrunk_def shrunk_unfeathered_def)
  have a: "bitmap (canvas (composite Part_000 edge_browser None two_tone ?p2)) (0, 0)
     = \<lparr>red = 74882388/100000000, green = 0, blue = 2401/10000, alpha = 98892388/100000000\<rparr>"
    unfolding C3_composite_order[OF zp, of edge_browser None two_tone "0.4", THEN conjunct1]
    by (simp add: spec_composite_def Let_def fp two_tone_session(3,4) with_default_def c
        blurred_three_tap[OF kernel_edge] mp two_tone_drawn_shrunk[OF dp]
        opaque_def add_px_def scale_px_def)
  have fq': "featherPx (opts ?q2) \<le> 0.2" by (simp add: fq)
  have b: "bitmap (canvas (composite PersonMatte_js edge_browser None two_tone ?q2)) (0, 0)
     = \<lparr>red = 9604/10000, green = 0, blue = 0, alpha = 9604/10000\<rparr>"
    unfolding C3_composite_order[OF zq, of edge_browser None two_tone "0.4",
        THEN conjunct2, THEN conjunct2, rule_format, OF fq']
    by (simp add: spec_composite_def Let_def fq two_tone_session(3,4) with_default_def c
        mq two_tone_drawn_shrunk[OF dq] opaque_def scale_px_def)
  show ?thesis using a b by simp
qed

text \<open>
  C3 as stated fails for \<^verbatim>\<open>personMatte.js\<close> when \<^verbatim>\<open>featherPx > 0.2\<close>. One response with an
  opaque mask on the red-and-blue video: the left output pixel stays pure red, because the
  frame is drawn after the blur; the stated order blurs the masked frame, which mixes blue
  into that pixel and leaves red at \<open>3/4\<close>.
\<close>

theorem C3_mask_first_counterexample:
  "red (bitmap (canvas (onResults PersonMatte_js sample_browser two_tone wide_mask
          (sample_session PersonMatte_js sharp two_tone))) (0, 0)) = 1
   \<and> red (spec_composite sample_browser 0.6 (opts (sample_session PersonMatte_js sharp two_tone)) 2 1
          (bitmap (maskNice (onResults PersonMatte_js sample_browser two_tone wide_mask
             (sample_session PersonMatte_js sharp two_tone))))
          (video_frame two_tone) (0, 0)) = 3/4"
proof -
  let ?s0 = "sample_session PersonMatte_js sharp two_tone"
  let ?s2 = "shape sample_browser (smooth sample_browser wide_mask ?s0)"
  have z2: "sized ?s2" by (simp add: sized_shape_smooth two_tone_session)
  have f: "featherPx (opts ?s0) = 1"
    by (simp add: two_tone_session sharp_def no_options_def with_default_def)
  have c: "in_canvas 2 (Suc 0) (0, 0)" "in_canvas 2 (Suc 0) (Suc 0, 0)" by (simp_all add: in_canvas_def)
  have m: "bitmap (maskNice ?s2) (0, 0) = opaque 1 1 1" "bitmap (maskNice ?s2) (Suc 0, 0) = opaque 1 1 1"
    using sharp_mask[of sharp sample_browser "(0, 0)" PersonMatte_js]
      sharp_mask[of sharp sample_browser "(Suc 0, 0)" PersonMatte_js]
    by (simp_all add: in_canvas_def sharp_def no_options_def with_default_def)
  have out: "bitmap (canvas (onResults PersonMatte_js sample_browser two_tone wide_mask ?s0)) =
      mask_first_composite sample_browser 0.6 (opts ?s0) 2 1 (bitmap (maskNice ?s2)) (video_frame two_tone)"
    using composite_pm_pixels[OF z2, of sample_browser None two_tone]
    using onResults_ok(3)[of ?s0 PersonMatte_js sample_browser two_tone wide_mask]
    by (simp add: wide_mask_def sample_results_def with_default_def two_tone_session)
  have a: "red (mask_first_composite sample_browser 0.6 (opts ?s0) 2 1 (bitmap (maskNice ?s2))
      (video_frame two_tone) (0, 0)) = 1"
    by (simp add: mask_first_composite_def Let_def f blurred_sample c m two_tone_drawn
        opaque_def add_px_def scale_px_def)
  have b: "red (spec_composite sample_browser 0.6 (opts ?s0) 2 1 (bitmap (maskNice ?s2))
      (video_frame two_tone) (0, 0)) = 3/4"
    by (simp add: spec_composite_def Let_def f blurred_sample c m two_tone_drawn
        opaque_def add_px_def scale_px_def)
  show ?thesis using a b by (simp add: out)
qed

section \<open>Masking\<close>

lemma blurred_transparent:
  "(\<And>q. in_canvas w h q \<Longrightarrow> f q = transparent) \<Longrightarrow> blurred b w h r f p = transparent"
  by (simp add: blurred_def conv_zero transparent_def)

lemma blurred_alpha_zero:
  "(\<And>q. in_canvas w h q \<Longrightarrow> alpha (f q) = 0) \<Longrightarrow> alpha (blurred b w h r f p) = 0"
  by (simp add: blurred_def conv_zero)

lemma empty_mask_spec:
  assumes "\<And>p. in_canvas w h p \<Longrightarrow> alpha (msk p) = 0"
  shows "spec_composite b fr op w h msk frm = (\<lambda>p. transparent)"
proof -
  have m: "scale_px (alpha (msk p)) (drawn_frame b op w h frm p) = transparent" for p
    by (cases "in_canvas w h p") (simp_all add: assms)
  show ?thesis
    by (simp add: spec_composite_def Let_def m blurred_transparent fun_eq_iff del: split_paired_All)
qed

lemma empty_mask_first:
  assumes "\<And>p. in_canvas w h p \<Longrightarrow> alpha (msk p) = 0"
  shows "mask_first_composite b fr op w h msk frm = (\<lambda>p. transparent)"
proof -
  let ?m = "\<lambda>p. if in_canvas w h p then msk p else transparent"
  have m: "alpha (?m p) = 0" for p
    by (simp add: assms transparent_def)
  have "alpha (blurred b w h r ?m p) = 0" for r p
    by (rule blurred_alpha_zero) (simp add: assms)
  then show ?thesis using m
    by (simp add: mask_first_composite_def Let_def fun_eq_iff add_px_def scale_px_def
        transparent_def del: split_paired_All blurred_clip)
qed

lemma full_mask_spec:
  assumes "\<And>p. in_canvas w h p \<Longrightarrow> alpha (msk p) = 1" "featherPx op \<le> 0.2"
  shows "spec_composite b fr op w h msk frm = drawn_frame b op w h frm"
proof -
  have "scale_px (alpha (msk p)) (drawn_frame b op w h frm p) = drawn_frame b op w h frm p" for p
    by (cases "in_canvas w h p") (simp_all add: assms)
  then show ?thesis using assms(2)
    by (simp add: spec_composite_def Let_def fun_eq_iff del: split_paired_All)
qed

text \<open>
  C4. With the canvases sized by \<^verbatim>\<open>start\<close>, in both revisions: if the shaped mask is zero at
  every pixel of the canvas, a composite leaves the output fully transparent whatever the
  frame; if it is at its maximum at every pixel and \<^verbatim>\<open>featherPx = dilatePx = 0\<close>, the output
  is exactly the frame drawn into the rectangle of size \<open>(w * s, h * s)\<close> at
  \<open>((w - w * s) / 2, (h - h * s) / 2)\<close>, with \<open>s = clamp(rgbScale, 0.97, 1.0)\<close>.
\<close>

theorem C4_masking:
  assumes "sized s"
  shows "((\<forall>p. in_canvas (width (canvas s)) (height (canvas s)) p \<longrightarrow> alpha (bitmap (maskNice s) p) = 0)
           \<longrightarrow> bitmap (canvas (composite rv b img v s)) = (\<lambda>p. transparent))
     \<and> ((\<forall>p. in_canvas (width (canvas s)) (height (canvas s)) p \<longrightarrow> alpha (bitmap (maskNice s) p) = 1)
           \<and> featherPx (opts s) = 0 \<and> dilatePx (opts s) = 0
           \<longrightarrow> bitmap (canvas (composite rv b img v s)) =
                 drawn_frame b (opts s) (width (canvas s)) (height (canvas s))
                   (with_default (video_frame v) img))"
proof (cases rv)
  case PersonMatte_js
  show ?thesis
    unfolding PersonMatte_js composite_pm_pixels[OF assms]
    using mask_first_eq_spec[of "opts s" b "0.6" "width (canvas s)" "height (canvas s)"
        "bitmap (maskNice s)" "with_default (video_frame v) img" "0.6"]
    by (auto simp: empty_mask_first full_mask_spec simp del: split_paired_All)
next
  case Part_000
  show ?thesis
    unfolding Part_000 composite_p0_pixels[OF assms]
    by (auto simp: empty_mask_spec full_mask_spec simp del: split_paired_All)
qed

lemma crisp_mask:
  assumes "in_canvas 1 1 p"
  shows "alpha (bitmap (maskNice (onResults rv b red_video full_mask
           (sample_session rv crisp red_video))) p) = 1"
proof -
  let ?s0 = "sample_session rv crisp red_video"
  have o: "emaAlpha (opts ?s0) = 1" "dilatePx (opts ?s0) = 0" "featherPx (opts ?s0) = 0"
    and z0: "sized ?s0" and w0: "width (canvas ?s0) = 1" "height (canvas ?s0) = 1"
    by (simp_all add: red_video_def sample_session_start crisp_def no_options_def with_default_def)
  have r: "alpha (placed b (segmentationMask full_mask) 0 0 1 1 p) = 1"
    using assms by (simp add: full_mask_def sample_results_def placed_def opaque_def)
  show ?thesis
    using smooth_alpha[of ?s0 p b full_mask] assms
    by (simp add: shape_off o z0 w0 r)
qed

text \<open>With the default \<^verbatim>\<open>rgbScale = 0.992\<close> the frame covers \<open>0.992 * 0.992\<close> of the one pixel.\<close>

lemma crisp_drawn_edge:
  "drawn_frame edge_browser (opts (sample_session rv crisp red_video)) (Suc 0) (Suc 0)
       (video_frame red_video) (0, 0)
     = scale_px (984064/1000000) (opaque 1 0 0)"
proof -
  have o: "clamp (rgbScale (opts (sample_session rv crisp red_video))) 0.97 1.0 = 0.992"
    by (simp add: clamp_def red_video_def sample_session_start crisp_def no_options_def with_default_def)
  show ?thesis
    unfolding drawn_frame_def Let_def o
    by (simp add: placed_def video_frame_def red_video_def sample_video_def in_canvas_def
        edge_browser_def cover_def)
qed

theorem C4_masking_witness:
  "bitmap (canvas (composite Part_000 edge_browser None red_video
      (sample_session Part_000 no_options red_video))) = (\<lambda>p. transparent)
   \<and> bitmap (canvas (composite PersonMatte_js edge_browser None red_video
      (onResults PersonMatte_js edge_browser red_video full_mask
        (sample_session PersonMatte_js crisp red_video)))) (0, 0) =
     \<lparr>red = 984064/1000000, green = 0, blue = 0, alpha = 984064/1000000\<rparr>"
proof -
  let ?s0 = "sample_session Part_000 no_options red_video"
  let ?c0 = "sample_session PersonMatte_js crisp red_video"
  let ?c1 = "onResults PersonMatte_js edge_browser red_video full_mask ?c0"
  have z0: "sized ?s0" and m0: "bitmap (maskNice ?s0) = (\<lambda>p. transparent)"
    by (simp_all add: red_video_def sample_session_start)
  have zc0: "sized ?c0" and w0: "width (canvas ?c0) = 1" "height (canvas ?c0) = 1"
    and o: "featherPx (opts ?c0) = 0" "dilatePx (opts ?c0) = 0"
    by (simp_all add: red_video_def sample_session_start crisp_def no_options_def with_default_def)
  have zc: "sized ?c1" by (rule sized_onResults[OF zc0])
  have w: "width (canvas ?c1) = 1" "height (canvas ?c1) = 1"
    using onResults_size[OF zc0, of PersonMatte_js edge_browser red_video full_mask] by (simp_all add: w0)
  have a: "bitmap (canvas (composite Part_000 edge_browser None red_video ?s0)) = (\<lambda>p. transparent)"
    using C4_masking[OF z0, of Part_000 edge_browser None red_video, THEN conjunct1]
    by (simp add: m0 transparent_def)
  have "bitmap (canvas (composite PersonMatte_js edge_browser None red_video ?c1)) =
     drawn_frame edge_browser (opts ?c0) 1 1 (video_frame red_video)"
    using C4_masking[OF zc, of PersonMatte_js edge_browser None red_video, THEN conjunct2]
      crisp_mask[of _ PersonMatte_js edge_browser]
    by (simp add: w o with_default_def)
  then have b: "bitmap (canvas (composite PersonMatte_js edge_browser None red_video ?c1)) (0, 0) =
     \<lparr>red = 984064/1000000, green = 0, blue = 0, alpha = 984064/1000000\<rparr>"
    by (simp add: crisp_drawn_edge scale_px_def opaque_def)
  show ?thesis using a b by simp
qed

section \<open>A rejected request\<close>

text \<open>
  In a session of non-zero size, a requesting tick whose request is rejected leaves the
  three mask canvases as they were, composites the live frame with the previous mask,
  ends without an exception and schedules the next tick.
\<close>

lemma rejected_tick_nonzero:
  assumes "sized s" and "0 < width (canvas s)" and "0 < height (canvas s)" and "\<not> stopped s"
    and "\<not> (divide (opts s) > 1 \<and> int (frame s + 1) mod divide (opts s) \<noteq> 0)"
  shows "maskRaw (fst (tick rv b v Rejects s)) = maskRaw s
     \<and> maskNice (fst (tick rv b v Rejects s)) = maskNice s
     \<and> scratch (fst (tick rv b v Rejects s)) = scratch s
     \<and> bitmap (canvas (fst (tick rv b v Rejects s))) =
         (case rv of
            Part_000 \<Rightarrow> spec_composite b 0.4 (opts s) (width (canvas s)) (height (canvas s))
                          (bitmap (maskNice s)) (video_frame v)
          | PersonMatte_js \<Rightarrow> mask_first_composite b 0.6 (opts s) (width (canvas s)) (height (canvas s))
                          (bitmap (maskNice s)) (video_frame v))
     \<and> sends (fst (tick rv b v Rejects s)) = sends s + 1
     \<and> renders (fst (tick rv b v Rejects s)) = renders s + 1
     \<and> thrown (fst (tick rv b v Rejects s)) = None
     \<and> snd (tick rv b v Rejects s)
     \<and> run rv b ((v, Rejects) # es) s = run rv b es (fst (tick rv b v Rejects s))"
proof -
  let ?s2 = "s\<lparr>frame := frame s + 1, sends := sends s + 1\<rparr>"
  have z: "sized ?s2" using assms(1) by simp
  have t: "tick rv b v Rejects s =
      (composite rv b (Some (video_frame v)) v ?s2,
       thrown (composite rv b (Some (video_frame v)) v ?s2) = None)"
    using assms(4,5) by (auto simp: tick_def Let_def)
  have th: "thrown (composite rv b (Some (video_frame v)) v ?s2) = None"
    using composite_thrown[OF z, of rv b "Some (video_frame v)" v] assms(2,3) by simp
  have px: "bitmap (canvas (composite rv b (Some (video_frame v)) v ?s2)) =
         (case rv of
            Part_000 \<Rightarrow> spec_composite b 0.4 (opts s) (width (canvas s)) (height (canvas s))
                          (bitmap (maskNice s)) (video_frame v)
          | PersonMatte_js \<Rightarrow> mask_first_composite b 0.6 (opts s) (width (canvas s)) (height (canvas s))
                          (bitmap (maskNice s)) (video_frame v))"
    using composite_pm_pixels[OF z, of b "Some (video_frame v)" v]
      composite_p0_pixels[OF z, of b "Some (video_frame v)" v]
    by (cases rv) (simp_all add: with_default_def)
  show ?thesis
    using th px by (simp add: t composite_renders del: composite.simps)
qed

text \<open>
  C5. The claim has a rejected request swallowed and the loop go on. In the session that
  \<^verbatim>\<open>personMatte.js\<close> starts on a video without picture size the canvases are
  \<open>0 \<times> 0\<close>: the first tick makes a request, the request is rejected, \<^verbatim>\<open>_composite\<close> in the
  \<^verbatim>\<open>catch\<close> block throws on drawing the empty mask canvas, nothing catches that, and
  \<^verbatim>\<open>requestAnimationFrame\<close> is not reached.
\<close>

theorem C5_rejection_on_empty_session:
  "width (canvas empty_session) = 0 \<and> height (canvas empty_session) = 0
   \<and> \<not> stopped empty_session
   \<and> sends (fst (tick PersonMatte_js sample_browser audio_only Rejects empty_session))
       = sends empty_session + 1
   \<and> thrown (fst (tick PersonMatte_js sample_browser audio_only Rejects empty_session))
       = Some InvalidStateError
   \<and> \<not> snd (tick PersonMatte_js sample_browser audio_only Rejects empty_session)"
proof -
  have e: "start PersonMatte_js audio_only [] (projr (constructor True no_options))
      = Some (audio_only, empty_session)"
    by (simp add: empty_session_def start_def audio_only_def)
  have z: "sized empty_session" by (rule sized_start[OF e])
  have f: "width (canvas empty_session) = 0" "height (canvas empty_session) = 0"
    "\<not> stopped empty_session" "frame empty_session = 0"
    "depthFpsDivider (opts empty_session) = 1"
    by (simp_all add: empty_session_def start_def audio_only_def size_all_def set_size_def js_or_def
        constructor_def no_options_def with_default_def)
  have d: "divide (opts empty_session) = 1"
    using to_int32_small[of 1] by (simp add: divide_def f)
  let ?s2 = "empty_session\<lparr>frame := frame empty_session + 1, sends := sends empty_session + 1\<rparr>"
  have z2: "sized ?s2" using z by simp
  have th: "thrown (composite PersonMatte_js sample_browser (Some (video_frame audio_only)) audio_only ?s2)
      = Some InvalidStateError"
    using composite_thrown[OF z2, of PersonMatte_js sample_browser "Some (video_frame audio_only)" audio_only] f
    by simp
  show ?thesis
    using th by (simp add: f tick_def Let_def d del: composite.simps)
qed

section \<open>Stopping\<close>

lemma stop_fields [simp]:
  "canvas (stop s) = canvas s" "maskNice (stop s) = maskNice s" "maskRaw (stop s) = maskRaw s"
  "scratch (stop s) = scratch s" "opts (stop s) = opts s" "stopped (stop s)"
  by (simp_all add: stop_def)

lemma on_stopped:
  "on_canvas f (s\<lparr>stopped := x\<rparr>) = (on_canvas f s)\<lparr>stopped := x\<rparr>"
  "on_maskRaw f (s\<lparr>stopped := x\<rparr>) = (on_maskRaw f s)\<lparr>stopped := x\<rparr>"
  "on_maskNice f (s\<lparr>stopped := x\<rparr>) = (on_maskNice f s)\<lparr>stopped := x\<rparr>"
  "on_scratch f (s\<lparr>stopped := x\<rparr>) = (on_scratch f s)\<lparr>stopped := x\<rparr>"
  by (simp_all add: on_canvas_def on_maskRaw_def on_maskNice_def on_scratch_def
      split: option.split sum.split)

lemma on_stopped_thrown:
  "on_canvas f (s\<lparr>stopped := x, thrown := e\<rparr>) = (on_canvas f (s\<lparr>thrown := e\<rparr>))\<lparr>stopped := x\<rparr>"
  "on_maskRaw f (s\<lparr>stopped := x, thrown := e\<rparr>) = (on_maskRaw f (s\<lparr>thrown := e\<rparr>))\<lparr>stopped := x\<rparr>"
  by (simp_all add: on_canvas_def on_maskRaw_def split: option.split sum.split)

lemma composite_stop: "composite rv b img v (stop s) = stop (composite rv b img v s)"
  by (cases rv) (simp_all add: composite_pm_def composite_p0_def Let_def stop_def on_stopped on_stopped_thrown)

lemma smooth_stop: "smooth b res (stop s) = stop (smooth b res s)"
  by (simp add: smooth_def Let_def stop_def on_stopped on_stopped_thrown)

lemma shape_stop: "shape b (stop s) = stop (shape b s)"
  by (simp add: shape_def Let_def stop_def on_stopped)

lemma onResults_stop: "onResults rv b v res (stop s) = stop (onResults rv b v res s)"
  by (simp add: onResults_def Let_def smooth_stop shape_stop composite_stop) (auto simp: stop_def)

lemma tick_stopped: "tick rv b v out (stop s) = (stop s, False)"
  by (simp add: tick_def stop_def)

lemma run_stopped: "run rv b es (stop s) = stop s"
  by (cases es) (simp_all add: tick_stopped)

text \<open>
  C6 (as the code has it). \<^verbatim>\<open>stop()\<close> is idempotent. Once the flag is set, a tick does no
  work, changes nothing and schedules no further tick, so the chain of ticks ends and ticks
  never touch the output again. \<^verbatim>\<open>_onResults\<close> does not look at the flag: a result
  delivered to it while the flag is set is applied and rendered exactly as it would be
  without the flag.
\<close>

theorem C6_stop_halts_ticks_only:
  "stop (stop s) = stop s
   \<and> tick rv b v out (stop s) = (stop s, False)
   \<and> run rv b es (stop s) = stop s
   \<and> onResults rv b v res (stop s) = stop (onResults rv b v res s)"
  by (simp add: tick_stopped run_stopped onResults_stop) (simp add: stop_def)

lemma crisp_drawn:
  "drawn_frame sample_browser (opts (sample_session rv crisp red_video)) 1 1 (video_frame red_video) (0, 0)
     = opaque 1 0 0"
proof -
  have o: "clamp (rgbScale (opts (sample_session rv crisp red_video))) 0.97 1.0 = 0.992"
    by (simp add: clamp_def red_video_def sample_session_start crisp_def no_options_def with_default_def)
  show ?thesis
    unfolding drawn_frame_def Let_def o
    by (simp add: placed_def video_frame_def red_video_def sample_video_def in_canvas_def
        sample_browser_def)
qed

text \<open>
  C6 as stated has a result that arrives after the stop was observed discarded. Here
  \<^verbatim>\<open>stop()\<close> is called on a fresh session, the next tick observes it and returns, and then
  a result is delivered: the output pixel, transparent until then, becomes opaque.
\<close>

theorem C6_late_result_counterexample:
  "tick PersonMatte_js sample_browser red_video Rejects (stop (sample_session PersonMatte_js crisp red_video))
     = (stop (sample_session PersonMatte_js crisp red_video), False)
   \<and> alpha (bitmap (canvas (stop (sample_session PersonMatte_js crisp red_video))) (0, 0)) = 0
   \<and> alpha (bitmap (canvas (onResults PersonMatte_js sample_browser red_video full_mask
         (stop (sample_session PersonMatte_js crisp red_video)))) (0, 0)) = 1"
proof -
  let ?s0 = "sample_session PersonMatte_js crisp red_video"
  let ?s2 = "shape sample_browser (smooth sample_browser full_mask ?s0)"
  have z0: "sized ?s0" by (simp add: red_video_def sample_session_start)
  have z2: "sized ?s2" and w: "width (canvas ?s0) = 1" "height (canvas ?s0) = 1"
    and f: "featherPx (opts ?s0) = 0"
    and c0: "bitmap (canvas ?s0) = (\<lambda>p. transparent)"
    by (simp_all add: sized_shape_smooth red_video_def sample_session_start crisp_def
        no_options_def with_default_def)
  have m: "alpha (bitmap (maskNice ?s2) (0, 0)) = 1"
    using crisp_mask[of "(0, 0)" PersonMatte_js sample_browser] by (simp add: in_canvas_def)
  have out: "bitmap (canvas (onResults PersonMatte_js sample_browser red_video full_mask ?s0)) =
      mask_first_composite sample_browser 0.6 (opts ?s0) 1 1 (bitmap (maskNice ?s2)) (video_frame red_video)"
    using composite_pm_pixels[OF z2, of sample_browser None red_video]
      onResults_ok(3)[of ?s0 PersonMatte_js sample_browser red_video full_mask] z0
    by (simp add: full_mask_def sample_results_def with_default_def w)
  have a: "alpha (mask_first_composite sample_browser 0.6 (opts ?s0) 1 1 (bitmap (maskNice ?s2))
      (video_frame red_video) (0, 0)) = 1"
    using crisp_drawn[of PersonMatte_js]
    by (simp add: mask_first_composite_def Let_def f in_canvas_def m scale_px_def opaque_def)
  show ?thesis
    using a by (simp add: tick_stopped onResults_stop out c0 transparent_def)
qed

section \<open>The mask canvases\<close>

lemma blurred_sample_1x1:
  "blurred sample_browser (Suc 0) (Suc 0) r f (0, 0) = scale_px (1/2) (f (0, 0))"
  by (simp add: blurred_def conv_def sample_browser_def scale_px_def)

text \<open>
  C7 (as the code has it). There are three mask canvases, \<^verbatim>\<open>_maskRaw\<close>, \<^verbatim>\<open>_maskNice\<close> and
  \<^verbatim>\<open>_scratch\<close>; the smoothed and the shaped mask share \<^verbatim>\<open>_maskNice\<close>. After a response,
  \<^verbatim>\<open>_maskNice\<close> holds the shaped mask: when \<^verbatim>\<open>dilatePx > 0\<close> or \<^verbatim>\<open>featherPx > 0\<close> the
  blurred mask is drawn over the smoothed one in place, otherwise the smoothed mask stays.
  The next update copies that canvas into \<^verbatim>\<open>_scratch\<close> and blends from it, so the previous
  value of the next smoothing step is the shaped mask. \<^verbatim>\<open>_composite\<close> writes to no mask.
\<close>

theorem C7_shaped_mask_in_place:
  assumes "sized s" and "in_canvas (width (canvas s)) (height (canvas s)) p"
  shows "maskNice (onResults rv b v res s) = maskNice (shape b (smooth b res s))
     \<and> bitmap (maskNice (shape b (smooth b res s))) p =
         (if dilatePx (opts s) > 0 \<or> featherPx (opts s) > 0
          then blend SourceOver
                 (apply_filter b (width (canvas s)) (height (canvas s))
                    (Blur (max 0 (dilatePx (opts s) + featherPx (opts s))))
                    (\<lambda>q. if in_canvas (width (canvas s)) (height (canvas s)) q
                         then bitmap (maskNice (smooth b res s)) q else transparent) p)
                 (bitmap (maskNice (smooth b res s)) p)
          else bitmap (maskNice (smooth b res s)) p)
     \<and> bitmap (scratch (smooth b res' (onResults rv b v res s))) p =
         bitmap (maskNice (shape b (smooth b res s))) p
     \<and> maskNice (composite rv b img v s) = maskNice s
     \<and> maskRaw (composite rv b img v s) = maskRaw s
     \<and> scratch (composite rv b img v s) = scratch s"
proof -
  have pos: "0 < width (canvas s)" "0 < height (canvas s)"
    using assms(2) by (auto simp: in_canvas_def)
  have z1: "sized (smooth b res s)" by (rule sized_smooth[OF assms(1)])
  have t1: "thrown (smooth b res s) = None" using pos by (simp add: smooth_thrown[OF assms(1)])
  have z2: "sized (onResults rv b v res s)" by (rule sized_onResults[OF assms(1)])
  have a: "bitmap (scratch (smooth b res' (onResults rv b v res s))) p =
         bitmap (maskNice (shape b (smooth b res s))) p"
    using smooth_scratch[OF z2, of p b res'] assms(2) onResults_size[OF assms(1), of rv b v res]
    by simp
  show ?thesis
    using shape_pixels[OF z1 t1, of p b] assms(2) a by simp
qed

theorem C7_shaped_mask_in_place_witness:
  "bitmap (scratch (smooth sample_browser full_mask
       (onResults PersonMatte_js sample_browser red_video full_mask
          (sample_session PersonMatte_js no_options red_video)))) (0, 0) =
     bitmap (maskNice (shape sample_browser (smooth sample_browser full_mask
          (sample_session PersonMatte_js no_options red_video)))) (0, 0)"
proof -
  let ?s = "sample_session PersonMatte_js no_options red_video"
  have z: "sized ?s" and w: "width (canvas ?s) = 1" "height (canvas ?s) = 1"
    by (simp_all add: red_video_def sample_session_start)
  have i: "in_canvas (width (canvas ?s)) (height (canvas ?s)) (0, 0)"
    by (simp add: w in_canvas_def)
  show ?thesis
    using C7_shaped_mask_in_place[OF z i, of PersonMatte_js sample_browser red_video full_mask full_mask]
    by simp
qed

text \<open>
  C7 as stated keeps the smoothed mask apart from the shaped one. With the default options
  and an opaque mask pixel, the smoothed value after the first response is \<open>7/20\<close>; the value
  the second update reads as its previous mask is the shaped one, \<open>371/800\<close>.
\<close>

theorem C7_previous_mask_counterexample:
  "alpha (bitmap (maskNice (smooth sample_browser full_mask
       (sample_session PersonMatte_js no_options red_video))) (0, 0)) = 7/20
   \<and> alpha (bitmap (scratch (smooth sample_browser full_mask
       (onResults PersonMatte_js sample_browser red_video full_mask
          (sample_session PersonMatte_js no_options red_video)))) (0, 0)) = 371/800"
proof -
  let ?s = "sample_session PersonMatte_js no_options red_video"
  let ?s1 = "smooth sample_browser full_mask ?s"
  have z: "sized ?s" and w: "width (canvas ?s) = 1" "height (canvas ?s) = 1"
    and m0: "bitmap (maskNice ?s) = (\<lambda>p. transparent)"
    and o: "emaAlpha (opts ?s) = 0.35" "dilatePx (opts ?s) = 0.6" "featherPx (opts ?s) = 1"
    by (simp_all add: red_video_def sample_session_start no_options_def with_default_def)
  have i: "in_canvas 1 1 (0, 0)" by (simp add: in_canvas_def)
  have r: "alpha (placed sample_browser (segmentationMask full_mask) 0 0 1 1 (0, 0)) = 1"
    by (simp add: full_mask_def sample_results_def placed_def in_canvas_def opaque_def)
  have a: "alpha (bitmap (maskNice ?s1) (0, 0)) = 7/20"
    using smooth_alpha[of ?s "(0, 0)" sample_browser full_mask] i
    by (simp add: z w o m0 r transparent_def)
  have z1: "sized ?s1" by (rule sized_smooth[OF z])
  have t1: "thrown ?s1 = None" by (simp add: smooth_thrown[OF z] w)
  have sh: "alpha (bitmap (maskNice (shape sample_browser ?s1)) (0, 0)) = 371/800"
    using shape_pixels[OF z1 t1, of "(0, 0)" sample_browser] i
    by (simp add: w o blurred_sample_1x1 a add_px_def scale_px_def)
  have z2: "sized (onResults PersonMatte_js sample_browser red_video full_mask ?s)"
    by (rule sized_onResults[OF z])
  have "bitmap (scratch (smooth sample_browser full_mask
       (onResults PersonMatte_js sample_browser red_video full_mask ?s))) (0, 0)
     = bitmap (maskNice (shape sample_browser ?s1)) (0, 0)"
    using smooth_scratch[OF z2, of "(0, 0)" sample_browser full_mask] i
      onResults_size[OF z, of PersonMatte_js sample_browser red_video full_mask]
    by (simp add: w)
  then show ?thesis using a sh by simp
qed

section \<open>Starting\<close>

lemma to_int32_zero [simp]: "to_int32 0 = 0"
  by (simp add: to_int32_def trunc_def)

lemma waitForVideo_part_000:
  assumes "waitForVideo Part_000 v evs = Some v'"
  shows "videoWidth v' \<noteq> 0 \<and> videoHeight v' \<noteq> 0"
proof -
  have "to_int32 (real (videoWidth v')) \<noteq> 0 \<and> to_int32 (real (videoHeight v')) \<noteq> 0"
    using assms by (auto simp: find_Some_iff split: if_splits)
  then show ?thesis
    by (cases "videoWidth v' = 0"; cases "videoHeight v' = 0") simp_all
qed

text \<open>
  The sibling revision \<^verbatim>\<open>part_000\<close>: when \<^verbatim>\<open>start\<close> resumes, the video reports a non-zero
  size and all four canvases have exactly that size.
\<close>

lemma start_part_000_dimensions:
  assumes "start Part_000 v evs s = Some (v', s')"
  shows "videoWidth v' \<noteq> 0 \<and> videoHeight v' \<noteq> 0
     \<and> width (canvas s') = videoWidth v' \<and> height (canvas s') = videoHeight v'
     \<and> same_size (maskRaw s') (canvas s') \<and> same_size (maskNice s') (canvas s')
     \<and> same_size (scratch s') (canvas s')"
proof -
  obtain w where w: "waitForVideo Part_000 v evs = Some w"
    using assms by (auto simp: start_def split: option.splits)
  then have "videoWidth w \<noteq> 0 \<and> videoHeight w \<noteq> 0" by (rule waitForVideo_part_000)
  then show ?thesis using assms w
    by (auto simp: start_def size_all_def set_size_def same_size_def js_or_def)
qed

text \<open>
  C8. The claim has \<^verbatim>\<open>start()\<close> suspend until the video reports non-zero dimensions.
  \<^verbatim>\<open>personMatte.js\<close> waits for \<^verbatim>\<open>readyState >= 2\<close> only: on a ready element without picture
  size it resumes at once and sizes the output canvas to \<open>0 \<times> 0\<close>. The sibling revision
  \<^verbatim>\<open>part_000\<close> stays suspended on the same element.
\<close>

theorem C8_start_without_dimensions:
  "map_option fst (start PersonMatte_js audio_only [] (projr (constructor True no_options))) = Some audio_only
   \<and> videoWidth audio_only = 0 \<and> videoHeight audio_only = 0
   \<and> width (canvas (snd (the (start PersonMatte_js audio_only [] (projr (constructor True no_options)))))) = 0
   \<and> height (canvas (snd (the (start PersonMatte_js audio_only [] (projr (constructor True no_options)))))) = 0
   \<and> start Part_000 audio_only [] (projr (constructor True no_options)) = None"
  by (simp add: start_def audio_only_def size_all_def set_size_def js_or_def)

section \<open>The options\<close>

text \<open>
  C9 (as the code has it). The constructor stores the six options as passed, with the
  defaults for those left out, and validates none of them. No operation of the class
  changes them afterwards. \<^verbatim>\<open>rgbScale\<close> is clamped to \<open>[0.97, 1]\<close> where \<^verbatim>\<open>_composite\<close> uses it and
  \<^verbatim>\<open>depthFpsDivider\<close> is coerced to \<open>max(1, value|0)\<close>, an integer, where \<^verbatim>\<open>_tick\<close> uses it.
\<close>

theorem C9_options_kept_and_coerced:
  "opts (projr (constructor True g)) =
       \<lparr>modelSelection = with_default 1 (g_modelSelection g),
        featherPx = with_default 1.0 (g_featherPx g),
        dilatePx = with_default 0.6 (g_dilatePx g),
        emaAlpha = with_default 0.35 (g_emaAlpha g),
        rgbScale = with_default 0.992 (g_rgbScale g),
        depthFpsDivider = with_default 1 (g_depthFpsDivider g)\<rparr>
   \<and> (start rv v evs s = Some (v', s') \<longrightarrow> opts s' = opts s)
   \<and> opts (stop s) = opts s
   \<and> opts (fst (tick rv b v out s)) = opts s
   \<and> opts (run rv b es s) = opts s
   \<and> opts (onResults rv b v res s) = opts s
   \<and> opts (composite rv b img v s) = opts s
   \<and> 0.97 \<le> shrink (opts s) \<and> shrink (opts s) \<le> 1
   \<and> 1 \<le> divide (opts s)
   \<and> divide (opts s) = max 1 (to_int32 (depthFpsDivider (opts s)))"
proof -
  have r: "opts (run rv b es s) = opts s"
  proof (induction es arbitrary: s)
    case Nil
    show ?case by simp
  next
    case (Cons e es)
    have "opts (run rv b es (fst (tick rv b (fst e) (snd e) s))) = opts s"
      by (simp add: Cons.IH tick_frame)
    then show ?case by (simp add: case_prod_beta tick_frame)
  qed
  have st: "start rv v evs s = Some (v', s') \<longrightarrow> opts s' = opts s"
    by (auto simp: start_def size_all_def split: option.splits)
  show ?thesis
    using r st by (simp add: constructor_def tick_frame shrink_def divide_def)
qed

theorem C9_options_kept_and_coerced_witness:
  "opts (snd (the (start Part_000 red_video [] (projr (constructor True over_alpha)))))
     = opts (projr (constructor True over_alpha))
   \<and> shrink (opts (projr (constructor True over_alpha))) = 0.992
   \<and> divide (opts (projr (constructor True every_other))) = 2"
proof -
  let ?s = "projr (constructor True over_alpha)"
  have s: "start Part_000 red_video [] ?s = Some (red_video, snd (the (start Part_000 red_video [] ?s)))"
    using to_int32_nat[of 1]
    by (simp add: start_def red_video_def sample_video_def)
  have d: "to_int32 2 = 2" using to_int32_small[of 2] by simp
  show ?thesis
    using C9_options_kept_and_coerced[of over_alpha Part_000 red_video "[]" ?s red_video
        "snd (the (start Part_000 red_video [] ?s))"]
      C9_options_kept_and_coerced[of every_other _ _ _ "projr (constructor True every_other)"] s
    by (simp add: shrink_def divide_def over_alpha_def every_other_def no_options_def
        with_default_def d)
qed

text \<open>
  C9 as stated has \<open>0 \<le> emaAlpha \<le> 1\<close> hold after construction. Constructing with
  \<^verbatim>\<open>emaAlpha = 2\<close> succeeds and the session started from it keeps the value 2.
\<close>

theorem C9_emaAlpha_counterexample:
  "emaAlpha (opts (sample_session PersonMatte_js over_alpha red_video)) = 2
   \<and> \<not> (0 \<le> emaAlpha (opts (sample_session PersonMatte_js over_alpha red_video))
        \<and> emaAlpha (opts (sample_session PersonMatte_js over_alpha red_video)) \<le> 1)"
  by (simp add: red_video_def sample_session_start over_alpha_def no_options_def with_default_def)

section \<open>The frame drawn on ticks without a new mask\<close>

text \<open>
  C10. On a decimated tick and on a tick whose request is rejected, the output is the
  composite of the mask left by the last response with the picture the video element
  shows at that tick: the frame argument of the pipeline is the live video, and no frame
  kept from an earlier response enters it.
\<close>

theorem C10_live_frame:
  assumes "sized s" and "\<not> stopped s"
    and "(divide (opts s) > 1 \<and> int (frame s + 1) mod divide (opts s) \<noteq> 0) \<or> out = Rejects"
  shows "bitmap (canvas (fst (tick rv b v out s))) =
     (case rv of
        Part_000 \<Rightarrow> spec_composite b 0.4 (opts s) (width (canvas s)) (height (canvas s))
                      (bitmap (maskNice s)) (video_frame v)
      | PersonMatte_js \<Rightarrow> mask_first_composite b 0.6 (opts s) (width (canvas s)) (height (canvas s))
                      (bitmap (maskNice s)) (video_frame v))"
proof -
  let ?s1 = "s\<lparr>frame := frame s + 1\<rparr>"
  let ?s2 = "s\<lparr>frame := frame s + 1, sends := sends s + 1\<rparr>"
  have z: "sized ?s1" "sized ?s2" using assms(1) by simp_all
  have t: "fst (tick rv b v out s) = composite rv b (Some (video_frame v)) v ?s1
      \<or> fst (tick rv b v out s) = composite rv b (Some (video_frame v)) v ?s2"
    using assms(2,3) by (auto simp: tick_def Let_def)
  have px: "bitmap (canvas (composite rv b (Some (video_frame v)) v s')) =
     (case rv of
        Part_000 \<Rightarrow> spec_composite b 0.4 (opts s) (width (canvas s)) (height (canvas s))
                      (bitmap (maskNice s)) (video_frame v)
      | PersonMatte_js \<Rightarrow> mask_first_composite b 0.6 (opts s) (width (canvas s)) (height (canvas s))
                      (bitmap (maskNice s)) (video_frame v))"
    if "sized s'" "opts s' = opts s" "canvas s' = canvas s" "maskNice s' = maskNice s" for s'
    using composite_pm_pixels[OF that(1), of b "Some (video_frame v)" v]
      composite_p0_pixels[OF that(1), of b "Some (video_frame v)" v] that(2-4)
    by (cases rv) (simp_all add: with_default_def)
  show ?thesis
    using t px[OF z(1)] px[OF z(2)] by auto
qed

lemma crisp_drawn_blue:
  "drawn_frame sample_browser (opts (sample_session rv crisp red_video)) 1 1 (video_frame blue_video) (0, 0)
     = opaque 0 0 1"
proof -
  have o: "clamp (rgbScale (opts (sample_session rv crisp red_video))) 0.97 1.0 = 0.992"
    by (simp add: clamp_def red_video_def sample_session_start crisp_def no_options_def with_default_def)
  show ?thesis
    unfolding drawn_frame_def Let_def o
    by (simp add: placed_def video_frame_def blue_video_def sample_video_def in_canvas_def
        sample_browser_def)
qed

theorem C10_live_frame_witness:
  "bitmap (canvas (onResults PersonMatte_js sample_browser red_video full_mask
       (sample_session PersonMatte_js crisp red_video))) (0, 0) = opaque 1 0 0
   \<and> bitmap (canvas (fst (tick PersonMatte_js sample_browser blue_video Rejects
       (onResults PersonMatte_js sample_browser red_video full_mask
          (sample_session PersonMatte_js crisp red_video))))) (0, 0) = opaque 0 0 1"
proof -
  let ?s0 = "sample_session PersonMatte_js crisp red_video"
  let ?s1 = "onResults PersonMatte_js sample_browser red_video full_mask ?s0"
  let ?s2 = "shape sample_browser (smooth sample_browser full_mask ?s0)"
  have z0: "sized ?s0" and st: "\<not> stopped ?s0"
    and w: "width (canvas ?s0) = 1" "height (canvas ?s0) = 1"
    and f: "featherPx (opts ?s0) = 0"
    by (simp_all add: red_video_def sample_session_start crisp_def no_options_def with_default_def)
  have z1: "sized ?s1" by (rule sized_onResults[OF z0])
  have z2: "sized ?s2" by (simp add: sized_shape_smooth z0)
  have m: "alpha (bitmap (maskNice ?s2) (0, 0)) = 1"
    using crisp_mask[of "(0, 0)" PersonMatte_js sample_browser] by (simp add: in_canvas_def)
  have out1: "bitmap (canvas ?s1) =
      mask_first_composite sample_browser 0.6 (opts ?s0) 1 1 (bitmap (maskNice ?s2)) (video_frame red_video)"
    using composite_pm_pixels[OF z2, of sample_browser None red_video]
      onResults_ok(3)[of ?s0 PersonMatte_js sample_browser red_video full_mask] z0
    by (simp add: full_mask_def sample_results_def with_default_def w)
  have a: "bitmap (canvas ?s1) (0, 0) = opaque 1 0 0"
    using crisp_drawn[of PersonMatte_js]
    by (simp add: out1 mask_first_composite_def Let_def f in_canvas_def m)
  have "bitmap (canvas (fst (tick PersonMatte_js sample_browser blue_video Rejects ?s1))) =
      mask_first_composite sample_browser 0.6 (opts ?s0) 1 1 (bitmap (maskNice ?s2)) (video_frame blue_video)"
    using C10_live_frame[OF z1, of Rejects PersonMatte_js sample_browser blue_video] st
      onResults_size[OF z0, of PersonMatte_js sample_browser red_video full_mask]
    by (simp add: w)
  then have b: "bitmap (canvas (fst (tick PersonMatte_js sample_browser blue_video Rejects ?s1))) (0, 0)
      = opaque 0 0 1"
    using crisp_drawn_blue[of PersonMatte_js]
    by (simp add: mask_first_composite_def Let_def f in_canvas_def m)
  show ?thesis using a b by simp
qed

end
